theory Spec2Isabelle
  imports Main "HOL-Library.Word"
begin

unbundle bit_operations_syntax

section \<open>The DMA-BUF vision buffer (msgq/visionipc/visionbuf\_dma-buf.cc)\<close>

text \<open>
  The file implements five methods of \<^verbatim>\<open>VisionBuf\<close>: \<^verbatim>\<open>allocate\<close>, \<^verbatim>\<open>import\<close>,
  \<^verbatim>\<open>init_cl\<close>, \<^verbatim>\<open>sync\<close> and \<^verbatim>\<open>free\<close>, the retry macro \<^verbatim>\<open>HANDLE_EINTR\<close> and the
  lazily opened \<^verbatim>\<open>/dev/ion\<close> descriptor \<^verbatim>\<open>ion_fd()\<close>. Everything else it touches is
  outside the program: the kernel (\<^verbatim>\<open>open\<close>, \<^verbatim>\<open>ioctl\<close>, \<^verbatim>\<open>mmap\<close>, \<^verbatim>\<open>munmap\<close>,
  \<^verbatim>\<open>close\<close>) and the OpenCL runtime (\<^verbatim>\<open>clCreateBuffer\<close>, \<^verbatim>\<open>clReleaseMemObject\<close>).

  The embedding is state passing. A \<open>world\<close> holds the log of external calls in the
  order they were issued, the bytes of the address space as the program's own stores
  leave them, and the function-local static of \<^verbatim>\<open>ion_fd()\<close>. The answers of the
  external services are a parameter, a \<open>kernel\<close>: one function per service, from the
  log of the calls issued so far and the arguments of the call to its result. A failed
  \<^verbatim>\<open>assert\<close> ends an operation with a \<open>fault\<close> (the left injection) and the world as
  it was at that moment (the model is of a build with assertions enabled).

  \<^verbatim>\<open>size_t\<close>, pointers and \<^verbatim>\<open>__u64\<close> are 64-bit words (the code targets 64-bit
  devices), so \<open>+\<close> wraps as the machine's does. Status values, \<^verbatim>\<open>errno\<close> and file
  descriptors are C \<^verbatim>\<open>int\<close>s that the code only compares and passes on; they are
  \<open>int\<close>.
\<close>

subsection \<open>Types and constants\<close>

type_synonym size_t = "64 word"
type_synonym ptr = "64 word"
type_synonym byte = "8 word"
type_synonym cl_mem = "64 word"
type_synonym cl_context = "64 word"
type_synonym cl_device_id = "64 word"

text \<open>Defined in the source file itself.\<close>

definition DEVICE_PAGE_SIZE_CL :: "64 word" where
  "DEVICE_PAGE_SIZE_CL = 4096"

definition PADDING_CL :: size_t where
  "PADDING_CL = 0"

definition MAP_SHARED :: "32 word" where
  "MAP_SHARED = 0x01"

definition sizeof_uint64_t :: size_t where
  "sizeof_uint64_t = 8"

text \<open>
  Constants of the system headers the file includes (errno.h, sys/mman.h, linux/ion.h,
  linux/msm\_ion.h, linux/dma-buf.h, CL/cl\_ext.h) and of \<^verbatim>\<open>visionbuf.h\<close>, which is
  not among the sources: taken at their values on the target platform. No property below
  depends on the particular numbers.
\<close>

definition EINTR :: int where
  "EINTR = 4"

definition nullptr :: ptr where
  "nullptr = 0"

definition MAP_FAILED :: ptr where
  "MAP_FAILED = - 1"

definition PROT_READ :: "32 word" where
  "PROT_READ = 1"

definition PROT_WRITE :: "32 word" where
  "PROT_WRITE = 2"

definition ION_SYSTEM_HEAP_ID :: nat where
  "ION_SYSTEM_HEAP_ID = 25"

definition ION_FLAG_CACHED :: "32 word" where
  "ION_FLAG_CACHED = 1"

definition DMA_BUF_SYNC_RW :: "64 word" where
  "DMA_BUF_SYNC_RW = 3"

definition DMA_BUF_SYNC_START :: "64 word" where
  "DMA_BUF_SYNC_START = 0"

definition DMA_BUF_SYNC_END :: "64 word" where
  "DMA_BUF_SYNC_END = 4"

definition CL_MEM_USE_HOST_PTR :: "64 word" where
  "CL_MEM_USE_HOST_PTR = 8"

definition CL_MEM_EXT_HOST_PTR_QCOM :: "64 word" where
  "CL_MEM_EXT_HOST_PTR_QCOM = push_bit 29 1"

definition CL_MEM_ION_HOST_PTR_QCOM :: "32 word" where
  "CL_MEM_ION_HOST_PTR_QCOM = 0x40A8"

definition CL_MEM_HOST_UNCACHED_QCOM :: "32 word" where
  "CL_MEM_HOST_UNCACHED_QCOM = 0x40A4"

text \<open>
  Modelled from the spec: \<^verbatim>\<open>visionbuf.h\<close>, which defines \<^verbatim>\<open>VISIONBUF_SYNC_FROM_DEVICE\<close>
  and \<^verbatim>\<open>VISIONBUF_SYNC_TO_DEVICE\<close>, is not among the sources. The spec has the two
  directions \<open>FROM_DEVICE\<close> and \<open>TO_DEVICE\<close> of \<open>sync(direction)\<close>; they are two distinct
  \<^verbatim>\<open>int\<close> values here.
\<close>

definition VISIONBUF_SYNC_FROM_DEVICE :: int where
  "VISIONBUF_SYNC_FROM_DEVICE = 0"

definition VISIONBUF_SYNC_TO_DEVICE :: int where
  "VISIONBUF_SYNC_TO_DEVICE = 1"

text \<open>
  \<^verbatim>\<open>struct ion_allocation_data\<close> of linux/ion.h (the kernel 4.12 interface the source's
  comment describes): the request fields \<^verbatim>\<open>len\<close>, \<^verbatim>\<open>heap_id_mask\<close>, \<^verbatim>\<open>flags\<close>, and
  \<^verbatim>\<open>fd\<close>, the one field the kernel writes.
\<close>

record ion_allocation_data =
  alloc_len :: "64 word"
  alloc_heap_id_mask :: "32 word"
  alloc_flags :: "32 word"
  alloc_fd :: int

text \<open>\<^verbatim>\<open>cl_mem_ion_host_ptr\<close> of CL/cl\_ext.h, with the nested \<^verbatim>\<open>ext_host_ptr\<close> flattened.\<close>

record cl_mem_ion_host_ptr =
  allocation_type :: "32 word"
  host_cache_policy :: "32 word"
  ion_filedesc :: int
  ion_hostptr :: ptr

text \<open>
  Modelled from the spec: \<^verbatim>\<open>visionbuf.h\<close>, which declares \<^verbatim>\<open>class VisionBuf\<close>, is not
  among the sources. The spec's buffer has \<open>byte_length\<close>, \<open>mapped_length\<close>,
  \<open>base_address\<close>, \<open>frame_counter_ref\<close>, \<open>sharable_handle\<close> and
  \<open>compute_memory_object\<close>; the record has them under the names by which this file
  reads and writes them (\<^verbatim>\<open>this->len\<close>, \<^verbatim>\<open>this->mmap_len\<close>, \<^verbatim>\<open>this->addr\<close>,
  \<^verbatim>\<open>this->frame_id\<close>, \<^verbatim>\<open>this->fd\<close>, \<^verbatim>\<open>this->buf_cl\<close>), with the types of their uses.
\<close>

record VisionBuf =
  len :: size_t
  mmap_len :: size_t
  addr :: ptr
  frame_id :: ptr
  fd :: int
  buf_cl :: cl_mem

subsection \<open>The world outside the program\<close>

text \<open>One constructor per external call the file makes, with the arguments it passes.\<close>

datatype call =
    Open_dev_ion
  | Ioctl_ION_IOC_ALLOC int ion_allocation_data
  | Mmap ptr size_t "32 word" "32 word" int "64 word"
  | Ioctl_DMA_BUF_IOCTL_SYNC int "64 word"
  | ClCreateBuffer cl_context "64 word" size_t cl_mem_ion_host_ptr
  | ClReleaseMemObject cl_mem
  | Munmap ptr size_t
  | Close int

record world =
  calls :: "call list"
  mem :: "ptr \<Rightarrow> byte"
  fh :: "int option"

text \<open>
  The external services. Each takes the log of the calls issued before this one, so an
  answer may depend on the whole history (a call interrupted twice and then served, a
  descriptor that is closed). \<open>k_ion_alloc\<close> and \<open>k_dma_buf_sync\<close> answer with the return
  value and the \<^verbatim>\<open>errno\<close> left behind; \<open>k_ion_alloc\<close> also with the value of the
  request's \<^verbatim>\<open>fd\<close> field after the call (it is given the request, so it can leave the
  field as it was). \<open>k_clCreateBuffer\<close> answers with the memory object and the value
  stored through \<^verbatim>\<open>&err\<close>.
\<close>

record kernel =
  k_open_ion :: "call list \<Rightarrow> int"
  k_ion_alloc :: "call list \<Rightarrow> int \<Rightarrow> ion_allocation_data \<Rightarrow> int \<times> int \<times> int"
  k_mmap :: "call list \<Rightarrow> size_t \<Rightarrow> int \<Rightarrow> ptr"
  k_dma_buf_sync :: "call list \<Rightarrow> int \<Rightarrow> 64 word \<Rightarrow> int \<times> int"
  k_clCreateBuffer :: "call list \<Rightarrow> cl_context \<Rightarrow> 64 word \<Rightarrow> size_t \<Rightarrow> cl_mem_ion_host_ptr \<Rightarrow> cl_mem \<times> int"
  k_clReleaseMemObject :: "call list \<Rightarrow> cl_mem \<Rightarrow> int"
  k_munmap :: "call list \<Rightarrow> ptr \<Rightarrow> size_t \<Rightarrow> int"
  k_close :: "call list \<Rightarrow> int \<Rightarrow> int"

datatype fault =
    Assert_ion_open
  | Assert_alloc_err
  | Assert_mmap_failed
  | Assert_fd_nonneg
  | Assert_page_aligned
  | Assert_cl_err
  | Assert_sync_dir

definition issue :: "call \<Rightarrow> world \<Rightarrow> world" where
  "issue c w = w\<lparr>calls := calls w @ [c]\<rparr>"

text \<open>\<^verbatim>\<open>memset(p, v, n)\<close>: the \<open>n\<close> bytes from \<open>p\<close> on become \<open>v\<close>.\<close>

definition memset :: "(ptr \<Rightarrow> byte) \<Rightarrow> ptr \<Rightarrow> byte \<Rightarrow> size_t \<Rightarrow> (ptr \<Rightarrow> byte)" where
  "memset m p v n = (\<lambda>q. if q - p < n then v else m q)"

subsection \<open>\<^verbatim>\<open>ion_fd\<close> and \<^verbatim>\<open>HANDLE_EINTR\<close>\<close>

text \<open>
  \<^verbatim>\<open>static IonFileHandle fh\<close>: constructed on the first call (open, then
  \<^verbatim>\<open>assert(fd >= 0)\<close>), returned as it is afterwards.
\<close>

definition ion_fd :: "kernel \<Rightarrow> world \<Rightarrow> (fault \<times> world) + (int \<times> world)" where
  "ion_fd env w =
     (case fh w of
        Some d \<Rightarrow> Inr (d, w)
      | None \<Rightarrow>
          (let d = k_open_ion env (calls w);
               w1 = issue Open_dev_ion w
           in if d \<ge> 0 then Inr (d, w1\<lparr>fh := Some d\<rparr>) else Inl (Assert_ion_open, w1)))"

text \<open>
  \<^verbatim>\<open>do { ret = (x); } while (ret == -1 && errno == EINTR && try_cnt++ < 100); ret\<close>.
  The expression \<open>x\<close> is evaluated again on every round; it answers with its value and
  the \<^verbatim>\<open>errno\<close> after it, or faults. The macro starts \<open>try_cnt\<close> at 0.
\<close>

function HANDLE_EINTR ::
  "('s \<Rightarrow> (fault \<times> world) + ((int \<times> int) \<times> 's)) \<Rightarrow> nat \<Rightarrow> 's \<Rightarrow> (fault \<times> world) + (int \<times> 's)" where
  "HANDLE_EINTR x try_cnt s =
     (case x s of
        Inl f \<Rightarrow> Inl f
      | Inr (re, s') \<Rightarrow>
          if fst re = - 1 \<and> snd re = EINTR \<and> try_cnt < 100
          then HANDLE_EINTR x (try_cnt + 1) s'
          else Inr (fst re, s'))"
  by pat_completeness auto
termination
  by (relation "measure (\<lambda>(x, try_cnt, s). 100 - try_cnt)") auto

subsection \<open>\<^verbatim>\<open>VisionBuf::allocate\<close>\<close>

text \<open>\<^verbatim>\<open>ioctl(ion_fd(), ION_IOC_ALLOC, &ion_alloc)\<close>, the expression under the macro.\<close>

definition ioctl_ion_alloc ::
  "kernel \<Rightarrow> world \<times> ion_allocation_data \<Rightarrow>
     (fault \<times> world) + ((int \<times> int) \<times> (world \<times> ion_allocation_data))" where
  "ioctl_ion_alloc env s =
     (case ion_fd env (fst s) of
        Inl f \<Rightarrow> Inl f
      | Inr (dev, w1) \<Rightarrow>
          (case k_ion_alloc env (calls w1) dev (snd s) of
             (ret, errno, newfd) \<Rightarrow>
               Inr ((ret, errno),
                    (issue (Ioctl_ION_IOC_ALLOC dev (snd s)) w1, (snd s)\<lparr>alloc_fd := newfd\<rparr>))))"

definition sys_mmap ::
  "kernel \<Rightarrow> ptr \<Rightarrow> size_t \<Rightarrow> 32 word \<Rightarrow> 32 word \<Rightarrow> int \<Rightarrow> 64 word \<Rightarrow> world \<Rightarrow> ptr \<times> world" where
  "sys_mmap env hint n prot flags d off w =
     (k_mmap env (calls w) n d, issue (Mmap hint n prot flags d off) w)"

text \<open>
  \<^verbatim>\<open>struct ion_allocation_data ion_alloc = {0}\<close> with the three assignments that
  follow it.
\<close>

definition ion_alloc_init :: "size_t \<Rightarrow> ion_allocation_data" where
  "ion_alloc_init length' =
     \<lparr>alloc_len = length' + PADDING_CL + sizeof_uint64_t,
      alloc_heap_id_mask = push_bit ION_SYSTEM_HEAP_ID 1,
      alloc_flags = ION_FLAG_CACHED,
      alloc_fd = 0\<rparr>"

definition allocate ::
  "kernel \<Rightarrow> VisionBuf \<Rightarrow> size_t \<Rightarrow> world \<Rightarrow> (fault \<times> world) + (VisionBuf \<times> world)" where
  "allocate env this length' w =
     (let ion_alloc = ion_alloc_init length'
      in case HANDLE_EINTR (ioctl_ion_alloc env) 0 (w, ion_alloc) of
           Inl f \<Rightarrow> Inl f
         | Inr (err, (w1, ion_alloc)) \<Rightarrow>
             if err \<noteq> 0 then Inl (Assert_alloc_err, w1)
             else
               (case sys_mmap env nullptr (alloc_len ion_alloc) (PROT_READ OR PROT_WRITE)
                       MAP_SHARED (alloc_fd ion_alloc) 0 w1 of
                  (mmap_addr, w2) \<Rightarrow>
                    if mmap_addr = MAP_FAILED then Inl (Assert_mmap_failed, w2)
                    else
                      (let w3 = w2\<lparr>mem := memset (mem w2) mmap_addr 0 (alloc_len ion_alloc)\<rparr>;
                           this = this\<lparr>len := length'\<rparr>;
                           this = this\<lparr>mmap_len := alloc_len ion_alloc\<rparr>;
                           this = this\<lparr>addr := mmap_addr\<rparr>;
                           this = this\<lparr>fd := alloc_fd ion_alloc\<rparr>;
                           this = this\<lparr>frame_id := addr this + len this + PADDING_CL\<rparr>
                       in Inr (this, w3))))"

subsection \<open>\<^verbatim>\<open>VisionBuf::import\<close>\<close>

definition "import" ::
  "kernel \<Rightarrow> VisionBuf \<Rightarrow> world \<Rightarrow> (fault \<times> world) + (VisionBuf \<times> world)" where
  "import env this w =
     (if \<not> fd this \<ge> 0 then Inl (Assert_fd_nonneg, w)
      else
        (case sys_mmap env nullptr (mmap_len this) (PROT_READ OR PROT_WRITE) MAP_SHARED
                (fd this) 0 w of
           (a, w1) \<Rightarrow>
             (let this = this\<lparr>addr := a\<rparr>
              in if addr this = MAP_FAILED then Inl (Assert_mmap_failed, w1)
                 else Inr (this\<lparr>frame_id := addr this + len this + PADDING_CL\<rparr>, w1))))"

subsection \<open>\<^verbatim>\<open>VisionBuf::init_cl\<close>\<close>

definition init_cl ::
  "kernel \<Rightarrow> VisionBuf \<Rightarrow> cl_device_id \<Rightarrow> cl_context \<Rightarrow> world \<Rightarrow>
     (fault \<times> world) + (VisionBuf \<times> world)" where
  "init_cl env this device_id ctx w =
     (if addr this mod DEVICE_PAGE_SIZE_CL \<noteq> 0 then Inl (Assert_page_aligned, w)
      else
        (let ion_cl = \<lparr>allocation_type = CL_MEM_ION_HOST_PTR_QCOM,
                       host_cache_policy = CL_MEM_HOST_UNCACHED_QCOM,
                       ion_filedesc = fd this,
                       ion_hostptr = addr this\<rparr>;
             flags = CL_MEM_USE_HOST_PTR OR CL_MEM_EXT_HOST_PTR_QCOM
         in case k_clCreateBuffer env (calls w) ctx flags (len this) ion_cl of
              (m, err) \<Rightarrow>
                (let w1 = issue (ClCreateBuffer ctx flags (len this) ion_cl) w;
                     this = this\<lparr>buf_cl := m\<rparr>
                 in if err \<noteq> 0 then Inl (Assert_cl_err, w1) else Inr (this, w1))))"

subsection \<open>\<^verbatim>\<open>VisionBuf::sync\<close>\<close>

text \<open>\<^verbatim>\<open>ioctl(this->fd, DMA_BUF_IOCTL_SYNC, &sync)\<close>, the expression under the macro.\<close>

definition ioctl_dma_buf_sync ::
  "kernel \<Rightarrow> int \<Rightarrow> 64 word \<Rightarrow> world \<Rightarrow> (fault \<times> world) + ((int \<times> int) \<times> world)" where
  "ioctl_dma_buf_sync env d flags w =
     Inr (k_dma_buf_sync env (calls w) d flags, issue (Ioctl_DMA_BUF_IOCTL_SYNC d flags) w)"

definition sync_flags :: "int \<Rightarrow> 64 word" where
  "sync_flags dir =
     (if dir = VISIONBUF_SYNC_FROM_DEVICE then DMA_BUF_SYNC_START OR DMA_BUF_SYNC_RW
      else DMA_BUF_SYNC_END OR DMA_BUF_SYNC_RW)"

definition sync ::
  "kernel \<Rightarrow> VisionBuf \<Rightarrow> int \<Rightarrow> world \<Rightarrow> (fault \<times> world) + (int \<times> VisionBuf \<times> world)" where
  "sync env this dir w =
     (if \<not> (dir = VISIONBUF_SYNC_FROM_DEVICE \<or> dir = VISIONBUF_SYNC_TO_DEVICE)
      then Inl (Assert_sync_dir, w)
      else
        (case HANDLE_EINTR (ioctl_dma_buf_sync env (fd this) (sync_flags dir)) 0 w of
           Inl f \<Rightarrow> Inl f
         | Inr (ret, w1) \<Rightarrow> Inr (ret, this, w1)))"

subsection \<open>\<^verbatim>\<open>VisionBuf::free\<close>\<close>

text \<open>
  No field of the object is assigned. Each step reads its result and returns it at once
  when it is not 0.
\<close>

definition free :: "kernel \<Rightarrow> VisionBuf \<Rightarrow> world \<Rightarrow> int \<times> VisionBuf \<times> world" where
  "free env this w =
     (let step1 =
            (if buf_cl this \<noteq> nullptr
             then (k_clReleaseMemObject env (calls w) (buf_cl this),
                   issue (ClReleaseMemObject (buf_cl this)) w)
             else (0, w))
      in case step1 of
           (err, w1) \<Rightarrow>
             if err \<noteq> 0 then (err, this, w1)
             else
               (let err = k_munmap env (calls w1) (addr this) (mmap_len this);
                    w2 = issue (Munmap (addr this) (mmap_len this)) w1
                in if err \<noteq> 0 then (err, this, w2)
                   else (k_close env (calls w2) (fd this), this, issue (Close (fd this)) w2)))"

subsection \<open>Reading the log\<close>

text \<open>
  What \<^verbatim>\<open>HANDLE_EINTR(ioctl(ion_fd(), ION_IOC_ALLOC, &ion_alloc))\<close> may put on the log
  for a request \<open>ia\<close>: the one-time open of \<^verbatim>\<open>/dev/ion\<close>, and allocation requests that
  agree with \<open>ia\<close> on the fields the program fills in.
\<close>

definition heap_traffic :: "ion_allocation_data \<Rightarrow> call \<Rightarrow> bool" where
  "heap_traffic ia x =
     (case x of
        Open_dev_ion \<Rightarrow> True
      | Ioctl_ION_IOC_ALLOC dev ia0 \<Rightarrow>
          alloc_len ia0 = alloc_len ia \<and> alloc_heap_id_mask ia0 = alloc_heap_id_mask ia
          \<and> alloc_flags ia0 = alloc_flags ia
      | _ \<Rightarrow> False)"

text \<open>The world an operation leaves behind, whether it returned or faulted.\<close>

definition world_after :: "(fault \<times> world) + ('a \<times> world) \<Rightarrow> world" where
  "world_after r = (case r of Inl (f, w) \<Rightarrow> w | Inr (v, w) \<Rightarrow> w)"

text \<open>
  The steps of a release whose resource is present, in the order \<open>free\<close> takes them:
  the release of the OpenCL memory object when there is one, the \<^verbatim>\<open>munmap\<close>, the
  \<^verbatim>\<open>close\<close>. \<open>answer\<close> is what the kernel returns for such a call after a given log.
\<close>

definition teardown_steps :: "VisionBuf \<Rightarrow> call list" where
  "teardown_steps this =
     (if buf_cl this \<noteq> nullptr then [ClReleaseMemObject (buf_cl this)] else [])
       @ [Munmap (addr this) (mmap_len this), Close (fd this)]"

definition answer :: "kernel \<Rightarrow> call list \<Rightarrow> call \<Rightarrow> int" where
  "answer env h c =
     (case c of
        ClReleaseMemObject m \<Rightarrow> k_clReleaseMemObject env h m
      | Munmap a n \<Rightarrow> k_munmap env h a n
      | Close d \<Rightarrow> k_close env h d
      | _ \<Rightarrow> 0)"

text \<open>
  What \<^verbatim>\<open>mmap\<close> returns when it succeeds on a null hint without \<^verbatim>\<open>MAP_FIXED\<close>: an
  address that is not \<^verbatim>\<open>MAP_FAILED\<close> and, since the kernel never places such a
  mapping at address 0, not null either.
\<close>

definition valid_mapping :: "ptr \<Rightarrow> bool" where
  "valid_mapping a \<longleftrightarrow> a \<noteq> MAP_FAILED \<and> a \<noteq> nullptr"

subsection \<open>Sample worlds and kernels\<close>

text \<open>
  Concrete inputs on which the theorems below are exercised: an object as its member
  initialisers leave it, a world whose memory holds stale bytes, and a kernel whose
  services all succeed. Variations are written as record updates where they are used.
\<close>

definition fresh :: VisionBuf where
  "fresh = \<lparr>len = 0, mmap_len = 0, addr = nullptr, frame_id = 0, fd = 0, buf_cl = nullptr\<rparr>"

definition world0 :: world where
  "world0 = \<lparr>calls = [], mem = (\<lambda>a. 0xAA), fh = None\<rparr>"

definition serving :: kernel where
  "serving =
     \<lparr>k_open_ion = (\<lambda>h. 3),
      k_ion_alloc = (\<lambda>h dev ia. (0, 0, 7)),
      k_mmap = (\<lambda>h n d. 0x7F0000001000),
      k_dma_buf_sync = (\<lambda>h d f. (0, 0)),
      k_clCreateBuffer = (\<lambda>h ctx fl n p. (0x5000, 0)),
      k_clReleaseMemObject = (\<lambda>h m. 0),
      k_munmap = (\<lambda>h a n. 0),
      k_close = (\<lambda>h d. 0)\<rparr>"

text \<open>An object over a 24-byte mapping of descriptor 7, not registered with OpenCL.\<close>

definition mapped :: VisionBuf where
  "mapped = \<lparr>len = 16, mmap_len = 24, addr = 0x7F0000001000, frame_id = 0x7F0000001010,
              fd = 7, buf_cl = nullptr\<rparr>"

text \<open>
  A kernel that keeps track of descriptor 7, the number its heap hands out (the lowest
  free one): 7 is open from a granted allocation to the next \<^verbatim>\<open>close(7)\<close>. Requests on
  an open descriptor are served, requests on a closed one are refused (\<^verbatim>\<open>EBADF\<close> is 9).
\<close>

definition handle_open :: "call list \<Rightarrow> bool" where
  "handle_open h =
     fold (\<lambda>c live. case c of Ioctl_ION_IOC_ALLOC dev ia \<Rightarrow> True
                            | Close d \<Rightarrow> if d = 7 then False else live
                            | _ \<Rightarrow> live) h False"

definition tracking :: kernel where
  "tracking =
     \<lparr>k_open_ion = (\<lambda>h. 3),
      k_ion_alloc = (\<lambda>h dev ia. (0, 0, 7)),
      k_mmap = (\<lambda>h n d. if d = 7 \<and> handle_open h then 0x7F0000001000 else MAP_FAILED),
      k_dma_buf_sync = (\<lambda>h d f. if d = 7 \<and> handle_open h then (0, 0) else (- 1, 9)),
      k_clCreateBuffer = (\<lambda>h ctx fl n p. (0x5000, 0)),
      k_clReleaseMemObject = (\<lambda>h m. 0),
      k_munmap = (\<lambda>h a n. 0),
      k_close = (\<lambda>h d. if d = 7 \<and> handle_open h then 0 else - 1)\<rparr>"

section \<open>Properties\<close>

subsection \<open>The retry loop\<close>

declare HANDLE_EINTR.simps [simp del]

lemma issue_simps [simp]:
  "calls (issue c w) = calls w @ [c]" "mem (issue c w) = mem w" "fh (issue c w) = fh w"
  by (simp_all add: issue_def)

lemma HANDLE_EINTR_fault:
  "x s = Inl f \<Longrightarrow> HANDLE_EINTR x c s = Inl f"
  by (subst HANDLE_EINTR.simps) simp

lemma HANDLE_EINTR_stop:
  "x s = Inr (re, s') \<Longrightarrow> \<not> (fst re = - 1 \<and> snd re = EINTR \<and> c < 100) \<Longrightarrow>
   HANDLE_EINTR x c s = Inr (fst re, s')"
  by (subst HANDLE_EINTR.simps) auto

lemma HANDLE_EINTR_retry:
  "x s = Inr (re, s') \<Longrightarrow> fst re = - 1 \<Longrightarrow> snd re = EINTR \<Longrightarrow> c < 100 \<Longrightarrow>
   HANDLE_EINTR x c s = HANDLE_EINTR x (c + 1) s'"
  by (subst HANDLE_EINTR.simps) simp

lemma HANDLE_EINTR_sync:
  "c \<le> 100 \<Longrightarrow>
   \<exists>n ret w'. HANDLE_EINTR (ioctl_dma_buf_sync env d fl) c w = Inr (ret, w')
      \<and> 1 \<le> n \<and> n \<le> 101 - c
      \<and> calls w' = calls w @ replicate n (Ioctl_DMA_BUF_IOCTL_SYNC d fl)
      \<and> mem w' = mem w \<and> fh w' = fh w
      \<and> (\<forall>i<n - 1. k_dma_buf_sync env (calls w @ replicate i (Ioctl_DMA_BUF_IOCTL_SYNC d fl)) d fl = (- 1, EINTR))
      \<and> ret = fst (k_dma_buf_sync env (calls w @ replicate (n - 1) (Ioctl_DMA_BUF_IOCTL_SYNC d fl)) d fl)
      \<and> (n < 101 - c \<longrightarrow> k_dma_buf_sync env (calls w @ replicate (n - 1) (Ioctl_DMA_BUF_IOCTL_SYNC d fl)) d fl \<noteq> (- 1, EINTR))"
proof (induction "100 - c" arbitrary: c w)
  case 0
  then have c: "c = 100" by simp
  have run0: "HANDLE_EINTR (ioctl_dma_buf_sync env d fl) c w
       = Inr (fst (k_dma_buf_sync env (calls w) d fl), issue (Ioctl_DMA_BUF_IOCTL_SYNC d fl) w)"
    by (rule HANDLE_EINTR_stop) (auto simp add: ioctl_dma_buf_sync_def c)
  show ?case
    by (rule exI [of _ 1]) (use run0 c in simp)
next
  case (Suc k)
  let ?ev = "Ioctl_DMA_BUF_IOCTL_SYNC d fl"
  let ?r = "k_dma_buf_sync env (calls w) d fl"
  from Suc.hyps(2) have clt: "c < 100" by simp
  show ?case
  proof (cases "?r = (- 1, EINTR)")
    case False
    then have nr: "\<not> (fst ?r = - 1 \<and> snd ?r = EINTR)" by (metis prod.collapse)
    have run1: "HANDLE_EINTR (ioctl_dma_buf_sync env d fl) c w = Inr (fst ?r, issue ?ev w)"
      by (rule HANDLE_EINTR_stop) (use nr in \<open>auto simp add: ioctl_dma_buf_sync_def\<close>)
    show ?thesis
      by (rule exI [of _ 1]) (use run1 False clt in simp)
  next
    case True
    from Suc.hyps(2) have "k = 100 - (c + 1)" "c + 1 \<le> 100" by simp_all
    from Suc.hyps(1) [OF this, of "issue ?ev w"]
    obtain n ret w' where IH:
      "HANDLE_EINTR (ioctl_dma_buf_sync env d fl) (c + 1) (issue ?ev w) = Inr (ret, w')"
      "1 \<le> n" "n \<le> 101 - (c + 1)"
      "calls w' = calls (issue ?ev w) @ replicate n ?ev"
      "mem w' = mem w" "fh w' = fh w"
      "\<forall>i<n - 1. k_dma_buf_sync env (calls (issue ?ev w) @ replicate i ?ev) d fl = (- 1, EINTR)"
      "ret = fst (k_dma_buf_sync env (calls (issue ?ev w) @ replicate (n - 1) ?ev) d fl)"
      "n < 101 - (c + 1) \<longrightarrow> k_dma_buf_sync env (calls (issue ?ev w) @ replicate (n - 1) ?ev) d fl \<noteq> (- 1, EINTR)"
      by auto
    have sh: "\<And>i. calls (issue ?ev w) @ replicate i ?ev = calls w @ replicate (Suc i) ?ev"
      by simp
    have run: "HANDLE_EINTR (ioctl_dma_buf_sync env d fl) c w = Inr (ret, w')"
      using HANDLE_EINTR_retry [of "ioctl_dma_buf_sync env d fl" w "?r" "issue ?ev w" c] True clt IH(1)
      by (simp add: ioctl_dma_buf_sync_def)
    have early: "\<forall>i<Suc n - 1. k_dma_buf_sync env (calls w @ replicate i ?ev) d fl = (- 1, EINTR)"
    proof (intro allI impI)
      fix i assume "i < Suc n - 1"
      show "k_dma_buf_sync env (calls w @ replicate i ?ev) d fl = (- 1, EINTR)"
      proof (cases i)
        case 0 then show ?thesis using True by simp
      next
        case (Suc j)
        with \<open>i < Suc n - 1\<close> have "j < n - 1" by simp
        with IH(7) sh Suc show ?thesis by simp
      qed
    qed
    have Sn: "Suc (n - 1) = n" using IH(2) by simp
    show ?thesis
      apply (intro exI [of _ "Suc n"] exI [of _ ret] exI [of _ w'])
      apply (intro conjI)
      using run apply simp
      apply simp
      using IH(3) clt apply simp
      using IH(4) apply (simp add: replicate_append_same)
      using IH(5) apply simp
      using IH(6) apply simp
      using early apply simp
      using IH(8) sh [of "n - 1"] Sn apply simp
      using IH(9) sh [of "n - 1"] Sn clt apply simp
      done
  qed
qed

subsection \<open>The allocation request under the retry loop\<close>

lemma ion_fd_cases:
  "ion_fd env w = Inr (dev, w1) \<Longrightarrow>
     mem w1 = mem w \<and> fh w1 = Some dev \<and>
     (calls w1 = calls w \<or> calls w1 = calls w @ [Open_dev_ion])"
  by (auto simp add: ion_fd_def Let_def split: option.splits if_splits)

lemma ion_fd_fault:
  "ion_fd env w = Inl (f, w1) \<Longrightarrow>
     f = Assert_ion_open \<and> mem w1 = mem w \<and> calls w1 = calls w @ [Open_dev_ion]"
  by (auto simp add: ion_fd_def Let_def split: option.splits if_splits)

lemma ioctl_ion_alloc_Inr:
  assumes "ioctl_ion_alloc env (w, ia) = Inr (re, (w1, ia1))"
  shows "mem w1 = mem w \<and> fh w1 \<noteq> None \<and> (\<exists>d. ia1 = ia\<lparr>alloc_fd := d\<rparr>)
    \<and> (\<exists>dev. calls w1 = calls w @ [Ioctl_ION_IOC_ALLOC dev ia]
            \<or> calls w1 = calls w @ [Open_dev_ion, Ioctl_ION_IOC_ALLOC dev ia])"
  using assms
  by (auto simp add: ioctl_ion_alloc_def split: sum.splits prod.splits dest!: ion_fd_cases)

lemma ioctl_ion_alloc_Inl:
  assumes "ioctl_ion_alloc env (w, ia) = Inl (f, w1)"
  shows "f = Assert_ion_open \<and> mem w1 = mem w \<and> calls w1 = calls w @ [Open_dev_ion]"
  using assms
  by (auto simp add: ioctl_ion_alloc_def split: sum.splits prod.splits dest!: ion_fd_fault)

lemma heap_traffic_simps [simp]:
  "heap_traffic ia Open_dev_ion"
  "heap_traffic ia (Ioctl_ION_IOC_ALLOC dev ia0) \<longleftrightarrow>
     alloc_len ia0 = alloc_len ia \<and> alloc_heap_id_mask ia0 = alloc_heap_id_mask ia
     \<and> alloc_flags ia0 = alloc_flags ia"
  by (simp_all add: heap_traffic_def)

lemma heap_traffic_cong:
  "alloc_len ia1 = alloc_len ia \<Longrightarrow> alloc_heap_id_mask ia1 = alloc_heap_id_mask ia \<Longrightarrow>
   alloc_flags ia1 = alloc_flags ia \<Longrightarrow> heap_traffic ia1 = heap_traffic ia"
  by (rule ext) (simp add: heap_traffic_def split: call.splits)

lemma ioctl_ion_alloc_step:
  assumes "ioctl_ion_alloc env (w, ia) = Inr (re, (w1, ia1))"
  shows "mem w1 = mem w \<and> alloc_len ia1 = alloc_len ia
    \<and> alloc_heap_id_mask ia1 = alloc_heap_id_mask ia \<and> alloc_flags ia1 = alloc_flags ia
    \<and> (\<exists>cs dev ia0. calls w1 = calls w @ cs @ [Ioctl_ION_IOC_ALLOC dev ia0]
          \<and> list_all (heap_traffic ia) (cs @ [Ioctl_ION_IOC_ALLOC dev ia0]))"
proof -
  from ioctl_ion_alloc_Inr [OF assms] obtain d dev where
    m: "mem w1 = mem w" and i: "ia1 = ia\<lparr>alloc_fd := d\<rparr>"
    and c: "calls w1 = calls w @ [Ioctl_ION_IOC_ALLOC dev ia]
            \<or> calls w1 = calls w @ [Open_dev_ion, Ioctl_ION_IOC_ALLOC dev ia]"
    by blast
  from c have "\<exists>cs dev ia0. calls w1 = calls w @ cs @ [Ioctl_ION_IOC_ALLOC dev ia0]
          \<and> list_all (heap_traffic ia) (cs @ [Ioctl_ION_IOC_ALLOC dev ia0])"
  proof
    assume "calls w1 = calls w @ [Ioctl_ION_IOC_ALLOC dev ia]"
    then show ?thesis by (intro exI [of _ "[]"] exI [of _ dev] exI [of _ ia]) simp
  next
    assume "calls w1 = calls w @ [Open_dev_ion, Ioctl_ION_IOC_ALLOC dev ia]"
    then show ?thesis by (intro exI [of _ "[Open_dev_ion]"] exI [of _ dev] exI [of _ ia]) simp
  qed
  with m i show ?thesis by simp
qed

lemma alloc_loop_Inr:
  "HANDLE_EINTR (ioctl_ion_alloc env) c (w, ia) = Inr (err, (w1, ia1)) \<Longrightarrow>
   mem w1 = mem w \<and> alloc_len ia1 = alloc_len ia
    \<and> alloc_heap_id_mask ia1 = alloc_heap_id_mask ia \<and> alloc_flags ia1 = alloc_flags ia
    \<and> (\<exists>cs dev ia0. calls w1 = calls w @ cs @ [Ioctl_ION_IOC_ALLOC dev ia0]
          \<and> list_all (heap_traffic ia) (cs @ [Ioctl_ION_IOC_ALLOC dev ia0]))"
proof (induction "100 - c" arbitrary: c w ia)
  case 0
  then have c: "\<not> c < 100" by simp
  from "0.prems" obtain re where "ioctl_ion_alloc env (w, ia) = Inr (re, (w1, ia1))"
    by (subst (asm) HANDLE_EINTR.simps) (auto simp add: c split: sum.splits)
  from ioctl_ion_alloc_step [OF this] show ?case .
next
  case (Suc k)
  from Suc.prems obtain re w2 ia2 where
    st: "ioctl_ion_alloc env (w, ia) = Inr (re, (w2, ia2))"
    by (subst (asm) HANDLE_EINTR.simps) (auto split: sum.splits)
  note one = ioctl_ion_alloc_step [OF st]
  show ?case
  proof (cases "fst re = - 1 \<and> snd re = EINTR \<and> c < 100")
    case False
    from HANDLE_EINTR_stop [of "ioctl_ion_alloc env" "(w, ia)" re "(w2, ia2)" c, OF st False] Suc.prems have "w1 = w2" "ia1 = ia2" by simp_all
    with one show ?thesis by simp
  next
    case True
    then have "HANDLE_EINTR (ioctl_ion_alloc env) c (w, ia)
        = HANDLE_EINTR (ioctl_ion_alloc env) (c + 1) (w2, ia2)"
      using HANDLE_EINTR_retry [of "ioctl_ion_alloc env" "(w, ia)" re "(w2, ia2)" c, OF st] by simp
    with Suc.prems have run: "HANDLE_EINTR (ioctl_ion_alloc env) (c + 1) (w2, ia2) = Inr (err, (w1, ia1))"
      by simp
    from Suc.hyps(2) True have "k = 100 - (c + 1)" by simp
    note IH = Suc.hyps(1) [OF this run]
    from one have tr: "heap_traffic ia2 = heap_traffic ia" by (intro heap_traffic_cong) simp_all
    from one obtain cs dev ia0 where
      a: "calls w2 = calls w @ cs @ [Ioctl_ION_IOC_ALLOC dev ia0]"
         "list_all (heap_traffic ia) (cs @ [Ioctl_ION_IOC_ALLOC dev ia0])" by blast
    from IH tr obtain cs' dev' ia0' where
      b: "calls w1 = calls w2 @ cs' @ [Ioctl_ION_IOC_ALLOC dev' ia0']"
         "list_all (heap_traffic ia) (cs' @ [Ioctl_ION_IOC_ALLOC dev' ia0'])" by auto
    have "\<exists>cs dev ia0. calls w1 = calls w @ cs @ [Ioctl_ION_IOC_ALLOC dev ia0]
          \<and> list_all (heap_traffic ia) (cs @ [Ioctl_ION_IOC_ALLOC dev ia0])"
      by (intro exI [of _ "cs @ [Ioctl_ION_IOC_ALLOC dev ia0] @ cs'"] exI [of _ dev'] exI [of _ ia0'])
         (use a b in simp)
    with IH one show ?thesis by simp
  qed
qed

lemma alloc_loop_Inl:
  "HANDLE_EINTR (ioctl_ion_alloc env) c (w, ia) = Inl (f, w1) \<Longrightarrow>
   f = Assert_ion_open \<and> mem w1 = mem w
    \<and> (\<exists>cs. calls w1 = calls w @ cs \<and> list_all (heap_traffic ia) cs)"
proof (induction "100 - c" arbitrary: c w ia)
  case 0
  then have c: "\<not> c < 100" by simp
  from "0.prems" have "ioctl_ion_alloc env (w, ia) = Inl (f, w1)"
    by (subst (asm) HANDLE_EINTR.simps) (auto simp add: c split: sum.splits)
  from ioctl_ion_alloc_Inl [OF this] show ?case by simp
next
  case (Suc k)
  show ?case
  proof (cases "ioctl_ion_alloc env (w, ia)")
    case (Inl a)
    with Suc.prems have "ioctl_ion_alloc env (w, ia) = Inl (f, w1)"
      by (simp add: HANDLE_EINTR_fault)
    from ioctl_ion_alloc_Inl [OF this] show ?thesis by simp
  next
    case (Inr b)
    then obtain re w2 ia2 where st: "ioctl_ion_alloc env (w, ia) = Inr (re, (w2, ia2))"
      by (metis prod.collapse)
    note one = ioctl_ion_alloc_step [OF st]
    have True: "fst re = - 1 \<and> snd re = EINTR \<and> c < 100"
    proof (rule ccontr)
      assume n: "\<not> ?thesis"
      from HANDLE_EINTR_stop [of "ioctl_ion_alloc env" "(w, ia)" re "(w2, ia2)" c, OF st n] Suc.prems show False by simp
    qed
    then have "HANDLE_EINTR (ioctl_ion_alloc env) c (w, ia)
        = HANDLE_EINTR (ioctl_ion_alloc env) (c + 1) (w2, ia2)"
      using HANDLE_EINTR_retry [of "ioctl_ion_alloc env" "(w, ia)" re "(w2, ia2)" c, OF st] by simp
    with Suc.prems have run: "HANDLE_EINTR (ioctl_ion_alloc env) (c + 1) (w2, ia2) = Inl (f, w1)"
      by simp
    from Suc.hyps(2) True have "k = 100 - (c + 1)" by simp
    note IH = Suc.hyps(1) [OF this run]
    from one have tr: "heap_traffic ia2 = heap_traffic ia" by (intro heap_traffic_cong) simp_all
    from one obtain cs dev ia0 where
      a: "calls w2 = calls w @ cs @ [Ioctl_ION_IOC_ALLOC dev ia0]"
         "list_all (heap_traffic ia) (cs @ [Ioctl_ION_IOC_ALLOC dev ia0])" by blast
    from IH tr obtain cs' where
      b: "calls w1 = calls w2 @ cs'" "list_all (heap_traffic ia) cs'" by auto
    have "\<exists>cs. calls w1 = calls w @ cs \<and> list_all (heap_traffic ia) cs"
      by (intro exI [of _ "cs @ [Ioctl_ION_IOC_ALLOC dev ia0] @ cs'"]) (use a b in simp)
    with IH one show ?thesis by simp
  qed
qed

subsection \<open>The three outcomes of \<^verbatim>\<open>free\<close>\<close>

lemma answer_simps [simp]:
  "answer env h (ClReleaseMemObject m) = k_clReleaseMemObject env h m"
  "answer env h (Munmap a n) = k_munmap env h a n"
  "answer env h (Close d) = k_close env h d"
  by (simp_all add: answer_def)

lemma free_cases:
  assumes "free env this w = (ret, this', w')"
  shows "this' = this \<and> mem w' = mem w \<and> fh w' = fh w \<and>
    ((buf_cl this \<noteq> nullptr \<and> ret \<noteq> 0
        \<and> ret = k_clReleaseMemObject env (calls w) (buf_cl this)
        \<and> calls w' = calls w @ [ClReleaseMemObject (buf_cl this)])
     \<or> ((buf_cl this \<noteq> nullptr \<longrightarrow> k_clReleaseMemObject env (calls w) (buf_cl this) = 0)
        \<and> ret \<noteq> 0
        \<and> ret = k_munmap env
              (calls w @ (if buf_cl this \<noteq> nullptr then [ClReleaseMemObject (buf_cl this)] else []))
              (addr this) (mmap_len this)
        \<and> calls w' = calls w
              @ (if buf_cl this \<noteq> nullptr then [ClReleaseMemObject (buf_cl this)] else [])
              @ [Munmap (addr this) (mmap_len this)])
     \<or> ((buf_cl this \<noteq> nullptr \<longrightarrow> k_clReleaseMemObject env (calls w) (buf_cl this) = 0)
        \<and> k_munmap env
              (calls w @ (if buf_cl this \<noteq> nullptr then [ClReleaseMemObject (buf_cl this)] else []))
              (addr this) (mmap_len this) = 0
        \<and> ret = k_close env
              (calls w @ (if buf_cl this \<noteq> nullptr then [ClReleaseMemObject (buf_cl this)] else [])
                 @ [Munmap (addr this) (mmap_len this)])
              (fd this)
        \<and> calls w' = calls w
              @ (if buf_cl this \<noteq> nullptr then [ClReleaseMemObject (buf_cl this)] else [])
              @ [Munmap (addr this) (mmap_len this), Close (fd this)]))"
proof (cases "buf_cl this = nullptr")
  case True
  with assms show ?thesis
    by (auto simp add: free_def Let_def split: if_splits)
next
  case False
  with assms show ?thesis
    by (auto simp add: free_def Let_def split: if_splits)
qed

subsection \<open>\<^verbatim>\<open>import\<close> case by case, and evaluation on concrete inputs\<close>

lemma import_cases:
  "import env this w =
     (if fd this < 0 then Inl (Assert_fd_nonneg, w)
      else if k_mmap env (calls w) (mmap_len this) (fd this) = MAP_FAILED
      then Inl (Assert_mmap_failed,
                issue (Mmap nullptr (mmap_len this) (PROT_READ OR PROT_WRITE) MAP_SHARED (fd this) 0) w)
      else Inr (this\<lparr>addr := k_mmap env (calls w) (mmap_len this) (fd this),
                     frame_id := k_mmap env (calls w) (mmap_len this) (fd this) + len this + PADDING_CL\<rparr>,
                issue (Mmap nullptr (mmap_len this) (PROT_READ OR PROT_WRITE) MAP_SHARED (fd this) 0) w))"
  by (simp add: import_def sys_mmap_def Let_def)

lemmas run_defs = allocate_def ion_alloc_init_def HANDLE_EINTR.simps ioctl_ion_alloc_def ion_fd_def
  sys_mmap_def issue_def Let_def memset_def import_def init_cl_def sync_def sync_flags_def
  ioctl_dma_buf_sync_def free_def
  PADDING_CL_def sizeof_uint64_t_def DEVICE_PAGE_SIZE_CL_def MAP_SHARED_def EINTR_def nullptr_def
  MAP_FAILED_def PROT_READ_def PROT_WRITE_def ION_SYSTEM_HEAP_ID_def ION_FLAG_CACHED_def
  DMA_BUF_SYNC_RW_def DMA_BUF_SYNC_START_def DMA_BUF_SYNC_END_def CL_MEM_USE_HOST_PTR_def
  CL_MEM_EXT_HOST_PTR_QCOM_def CL_MEM_ION_HOST_PTR_QCOM_def CL_MEM_HOST_UNCACHED_QCOM_def
  VISIONBUF_SYNC_FROM_DEVICE_def VISIONBUF_SYNC_TO_DEVICE_def

subsection \<open>\<^verbatim>\<open>allocate\<close> after the retry loop\<close>

lemma memset_inside: "i < m \<Longrightarrow> memset f a v m (a + i) = v"
  by (simp add: memset_def)

lemma allocate_loop_fault:
  "HANDLE_EINTR (ioctl_ion_alloc env) 0 (w, ion_alloc_init n) = Inl f \<Longrightarrow>
   allocate env this n w = Inl f"
  by (simp add: allocate_def)

lemma allocate_after_loop:
  assumes "HANDLE_EINTR (ioctl_ion_alloc env) 0 (w, ion_alloc_init n) = Inr (err, (w1, ia1))"
  shows "allocate env this n w =
     (if err \<noteq> 0 then Inl (Assert_alloc_err, w1)
      else if k_mmap env (calls w1) (alloc_len ia1) (alloc_fd ia1) = MAP_FAILED
      then Inl (Assert_mmap_failed,
                issue (Mmap nullptr (alloc_len ia1) (PROT_READ OR PROT_WRITE) MAP_SHARED (alloc_fd ia1) 0) w1)
      else Inr (this\<lparr>len := n, mmap_len := alloc_len ia1,
                     addr := k_mmap env (calls w1) (alloc_len ia1) (alloc_fd ia1),
                     fd := alloc_fd ia1,
                     frame_id := k_mmap env (calls w1) (alloc_len ia1) (alloc_fd ia1) + n + PADDING_CL\<rparr>,
                (issue (Mmap nullptr (alloc_len ia1) (PROT_READ OR PROT_WRITE) MAP_SHARED (alloc_fd ia1) 0) w1)
                  \<lparr>mem := memset (mem w1) (k_mmap env (calls w1) (alloc_len ia1) (alloc_fd ia1)) 0
                            (alloc_len ia1)\<rparr>))"
  using assms by (simp add: allocate_def sys_mmap_def Let_def)

lemma allocate_Inr_loop:
  assumes "allocate env this n w = Inr (this', w')"
  shows "\<exists>w1 ia1. HANDLE_EINTR (ioctl_ion_alloc env) 0 (w, ion_alloc_init n) = Inr (0, (w1, ia1))
      \<and> k_mmap env (calls w1) (alloc_len ia1) (alloc_fd ia1) \<noteq> MAP_FAILED"
proof (cases "HANDLE_EINTR (ioctl_ion_alloc env) 0 (w, ion_alloc_init n)")
  case (Inl f)
  from allocate_loop_fault [OF this] assms show ?thesis by simp
next
  case (Inr r)
  then obtain err w1 ia1 where
    l: "HANDLE_EINTR (ioctl_ion_alloc env) 0 (w, ion_alloc_init n) = Inr (err, (w1, ia1))"
    by (metis prod.collapse)
  from allocate_after_loop [OF l, of this] assms l show ?thesis
    by (auto split: if_splits)
qed

lemma no_wrap_le:
  fixes n :: "64 word"
  assumes "unat n + unat PADDING_CL + unat sizeof_uint64_t < 2 ^ 64"
  shows "unat (n + PADDING_CL + sizeof_uint64_t) = unat n + unat PADDING_CL + unat sizeof_uint64_t"
    and "n \<le> n + PADDING_CL + sizeof_uint64_t"
proof -
  have "unat (n + 8) = unat n + unat (8 :: 64 word)"
    using assms by (intro unat_add_lem [THEN iffD1]) (simp add: PADDING_CL_def sizeof_uint64_t_def)
  then show u: "unat (n + PADDING_CL + sizeof_uint64_t) = unat n + unat PADDING_CL + unat sizeof_uint64_t"
    by (simp add: PADDING_CL_def sizeof_uint64_t_def)
  then show "n \<le> n + PADDING_CL + sizeof_uint64_t"
    by (simp add: word_le_nat_alt)
qed

lemma allocate_Inl_fault:
  assumes "allocate env this n w = Inl (f, w2)"
  shows "f = Assert_ion_open \<or> f = Assert_alloc_err \<or> f = Assert_mmap_failed"
proof (cases "HANDLE_EINTR (ioctl_ion_alloc env) 0 (w, ion_alloc_init n)")
  case (Inl g)
  with allocate_loop_fault [OF this, of this] assms
  have "HANDLE_EINTR (ioctl_ion_alloc env) 0 (w, ion_alloc_init n) = Inl (f, w2)" by simp
  from alloc_loop_Inl [OF this] show ?thesis by simp
next
  case (Inr r)
  then obtain err w1 ia1 where
    l: "HANDLE_EINTR (ioctl_ion_alloc env) 0 (w, ion_alloc_init n) = Inr (err, (w1, ia1))"
    by (metis prod.collapse)
  from allocate_after_loop [OF l, of this] assms show ?thesis
    by (auto split: if_splits)
qed

lemma allocate_Inr_shape:
  assumes "allocate env this n w = Inr (this', w')"
  obtains w1 ia1 cs dev ia0 where
    "HANDLE_EINTR (ioctl_ion_alloc env) 0 (w, ion_alloc_init n) = Inr (0, (w1, ia1))"
    "alloc_len ia1 = n + PADDING_CL + sizeof_uint64_t"
    "calls w1 = calls w @ cs @ [Ioctl_ION_IOC_ALLOC dev ia0]"
    "list_all (heap_traffic (ion_alloc_init n)) (cs @ [Ioctl_ION_IOC_ALLOC dev ia0])"
    "mem w1 = mem w"
    "k_mmap env (calls w1) (alloc_len ia1) (alloc_fd ia1) \<noteq> MAP_FAILED"
    "this' = this\<lparr>len := n, mmap_len := alloc_len ia1,
                   addr := k_mmap env (calls w1) (alloc_len ia1) (alloc_fd ia1),
                   fd := alloc_fd ia1,
                   frame_id := k_mmap env (calls w1) (alloc_len ia1) (alloc_fd ia1) + n + PADDING_CL\<rparr>"
    "w' = (issue (Mmap nullptr (alloc_len ia1) (PROT_READ OR PROT_WRITE) MAP_SHARED (alloc_fd ia1) 0) w1)
                \<lparr>mem := memset (mem w1) (k_mmap env (calls w1) (alloc_len ia1) (alloc_fd ia1)) 0
                          (alloc_len ia1)\<rparr>"
proof -
  from allocate_Inr_loop [OF assms] obtain w1 ia1 where
    l: "HANDLE_EINTR (ioctl_ion_alloc env) 0 (w, ion_alloc_init n) = Inr (0, (w1, ia1))"
    and m: "k_mmap env (calls w1) (alloc_len ia1) (alloc_fd ia1) \<noteq> MAP_FAILED" by blast
  from alloc_loop_Inr [OF l] obtain cs dev ia0 where
    a: "mem w1 = mem w" "alloc_len ia1 = n + PADDING_CL + sizeof_uint64_t"
       "calls w1 = calls w @ cs @ [Ioctl_ION_IOC_ALLOC dev ia0]"
       "list_all (heap_traffic (ion_alloc_init n)) (cs @ [Ioctl_ION_IOC_ALLOC dev ia0])"
    by (auto simp add: ion_alloc_init_def)
  from allocate_after_loop [OF l, of this] m assms have
    b: "this' = this\<lparr>len := n, mmap_len := alloc_len ia1,
                     addr := k_mmap env (calls w1) (alloc_len ia1) (alloc_fd ia1),
                     fd := alloc_fd ia1,
                     frame_id := k_mmap env (calls w1) (alloc_len ia1) (alloc_fd ia1) + n + PADDING_CL\<rparr>"
       "w' = (issue (Mmap nullptr (alloc_len ia1) (PROT_READ OR PROT_WRITE) MAP_SHARED (alloc_fd ia1) 0) w1)
                  \<lparr>mem := memset (mem w1) (k_mmap env (calls w1) (alloc_len ia1) (alloc_fd ia1)) 0
                            (alloc_len ia1)\<rparr>"
    by simp_all
  from l a(2,3,4,1) m b show thesis by (rule that)
qed

subsection \<open>Cache synchronisation\<close>

text \<open>
  C5. For either valid direction, \<open>sync\<close> returns to its caller and never faults. It
  issues the same \<^verbatim>\<open>DMA_BUF_IOCTL_SYNC\<close> request (same descriptor, same flags) between
  1 and 101 times: every attempt but the last was answered -1 with \<^verbatim>\<open>errno = EINTR\<close>,
  and the loop stops before the 101st attempt only on an answer that is not such an
  interruption. The status returned is the kernel's answer to the last attempt, so an
  exhausted retry budget (-1) and a failure for any other reason reach the caller as
  that status. The object and the memory are untouched.
\<close>

theorem sync_returns_status:
  assumes "dir = VISIONBUF_SYNC_FROM_DEVICE \<or> dir = VISIONBUF_SYNC_TO_DEVICE"
  shows "\<exists>n ret w'. sync env this dir w = Inr (ret, this, w')
      \<and> 1 \<le> n \<and> n \<le> 101
      \<and> calls w' = calls w @ replicate n (Ioctl_DMA_BUF_IOCTL_SYNC (fd this) (sync_flags dir))
      \<and> mem w' = mem w
      \<and> (\<forall>i<n - 1. k_dma_buf_sync env
              (calls w @ replicate i (Ioctl_DMA_BUF_IOCTL_SYNC (fd this) (sync_flags dir)))
              (fd this) (sync_flags dir) = (- 1, EINTR))
      \<and> ret = fst (k_dma_buf_sync env
              (calls w @ replicate (n - 1) (Ioctl_DMA_BUF_IOCTL_SYNC (fd this) (sync_flags dir)))
              (fd this) (sync_flags dir))
      \<and> (n < 101 \<longrightarrow> k_dma_buf_sync env
              (calls w @ replicate (n - 1) (Ioctl_DMA_BUF_IOCTL_SYNC (fd this) (sync_flags dir)))
              (fd this) (sync_flags dir) \<noteq> (- 1, EINTR))"
proof -
  from HANDLE_EINTR_sync [of 0 env "fd this" "sync_flags dir" w]
  obtain n ret w' where h:
    "HANDLE_EINTR (ioctl_dma_buf_sync env (fd this) (sync_flags dir)) 0 w = Inr (ret, w')"
    "1 \<le> n" "n \<le> 101"
    "calls w' = calls w @ replicate n (Ioctl_DMA_BUF_IOCTL_SYNC (fd this) (sync_flags dir))"
    "mem w' = mem w"
    "\<forall>i<n - 1. k_dma_buf_sync env
        (calls w @ replicate i (Ioctl_DMA_BUF_IOCTL_SYNC (fd this) (sync_flags dir)))
        (fd this) (sync_flags dir) = (- 1, EINTR)"
    "ret = fst (k_dma_buf_sync env
        (calls w @ replicate (n - 1) (Ioctl_DMA_BUF_IOCTL_SYNC (fd this) (sync_flags dir)))
        (fd this) (sync_flags dir))"
    "n < 101 \<longrightarrow> k_dma_buf_sync env
        (calls w @ replicate (n - 1) (Ioctl_DMA_BUF_IOCTL_SYNC (fd this) (sync_flags dir)))
        (fd this) (sync_flags dir) \<noteq> (- 1, EINTR)"
    by auto
  from assms h(1) have "sync env this dir w = Inr (ret, this, w')"
    by (simp add: sync_def)
  with h(2-) show ?thesis by blast
qed

text \<open>
  On a kernel that interrupts the first two requests and serves the third, a sync
  towards the device makes three attempts and returns 0.
\<close>

theorem sync_returns_status_witness:
  "(1 = VISIONBUF_SYNC_FROM_DEVICE \<or> 1 = VISIONBUF_SYNC_TO_DEVICE)
   \<and> (\<exists>n ret w'.
        sync (serving\<lparr>k_dma_buf_sync := (\<lambda>h d f. if length h < 2 then (- 1, EINTR) else (0, 0))\<rparr>)
          (fresh\<lparr>fd := 7\<rparr>) 1 world0 = Inr (ret, fresh\<lparr>fd := 7\<rparr>, w')
        \<and> 1 \<le> n \<and> n \<le> 101
        \<and> calls w' = replicate n (Ioctl_DMA_BUF_IOCTL_SYNC 7 7)
        \<and> mem w' = mem world0)
   \<and> fst (projr (sync (serving\<lparr>k_dma_buf_sync := (\<lambda>h d f. if length h < 2 then (- 1, EINTR) else (0, 0))\<rparr>)
          (fresh\<lparr>fd := 7\<rparr>) 1 world0)) = 0
   \<and> calls (snd (snd (projr (sync (serving\<lparr>k_dma_buf_sync := (\<lambda>h d f. if length h < 2 then (- 1, EINTR) else (0, 0))\<rparr>)
          (fresh\<lparr>fd := 7\<rparr>) 1 world0))))
       = [Ioctl_DMA_BUF_IOCTL_SYNC 7 7, Ioctl_DMA_BUF_IOCTL_SYNC 7 7, Ioctl_DMA_BUF_IOCTL_SYNC 7 7]"
proof -
  have d: "1 = VISIONBUF_SYNC_FROM_DEVICE \<or> 1 = VISIONBUF_SYNC_TO_DEVICE"
    by (simp add: VISIONBUF_SYNC_TO_DEVICE_def)
  have fl: "sync_flags 1 = 7"
    by (simp add: sync_flags_def VISIONBUF_SYNC_FROM_DEVICE_def DMA_BUF_SYNC_END_def
        DMA_BUF_SYNC_RW_def)
  from sync_returns_status [OF d,
      of "serving\<lparr>k_dma_buf_sync := (\<lambda>h d f. if length h < 2 then (- 1, EINTR) else (0, 0))\<rparr>"
         "fresh\<lparr>fd := 7\<rparr>" world0]
  have ex: "\<exists>n ret w'.
        sync (serving\<lparr>k_dma_buf_sync := (\<lambda>h d f. if length h < 2 then (- 1, EINTR) else (0, 0))\<rparr>)
          (fresh\<lparr>fd := 7\<rparr>) 1 world0 = Inr (ret, fresh\<lparr>fd := 7\<rparr>, w')
        \<and> 1 \<le> n \<and> n \<le> 101
        \<and> calls w' = replicate n (Ioctl_DMA_BUF_IOCTL_SYNC 7 7)
        \<and> mem w' = mem world0"
    by (simp add: fl world0_def) blast
  have run: "sync (serving\<lparr>k_dma_buf_sync := (\<lambda>h d f. if length h < 2 then (- 1, EINTR) else (0, 0))\<rparr>)
          (fresh\<lparr>fd := 7\<rparr>) 1 world0
       = Inr (0, fresh\<lparr>fd := 7\<rparr>,
              world0\<lparr>calls := [Ioctl_DMA_BUF_IOCTL_SYNC 7 7, Ioctl_DMA_BUF_IOCTL_SYNC 7 7,
                                Ioctl_DMA_BUF_IOCTL_SYNC 7 7]\<rparr>)"
    by (simp add: sync_def fl VISIONBUF_SYNC_TO_DEVICE_def HANDLE_EINTR.simps
        ioctl_dma_buf_sync_def issue_def world0_def EINTR_def)
  show ?thesis using d ex run by simp
qed

subsection \<open>Allocation\<close>

text \<open>
  C1, as stated, fails for the largest lengths. On a kernel that serves everything (the
  heap grants, the mapping is at a non-null address), a request for \<^verbatim>\<open>SIZE_MAX\<close>
  bytes returns, but \<open>length + PADDING_CL + sizeof(uint64_t)\<close> has wrapped to 7: the
  object records \<open>len = SIZE_MAX\<close> and \<open>mmap_len = 7\<close>, so \<open>mmap_len\<close> is not at least
  \<open>len\<close>, and the byte at offset 7, which is among the first \<open>len\<close> bytes, still holds
  its stale value.
\<close>

theorem allocate_counterexample:
  "(0 :: 64 word) < 0xFFFFFFFFFFFFFFFF
   \<and> (\<exists>w'. allocate serving fresh 0xFFFFFFFFFFFFFFFF world0
          = Inr (fresh\<lparr>len := 0xFFFFFFFFFFFFFFFF, mmap_len := 7, addr := 0x7F0000001000,
                       fd := 7, frame_id := 0x7F0000000FFF\<rparr>, w')
        \<and> mem w' (0x7F0000001000 + 7) = 0xAA)
   \<and> (7 :: 64 word) < 0xFFFFFFFFFFFFFFFF
   \<and> (0x7F0000001000 :: 64 word) \<noteq> nullptr
   \<and> \<not> ((0xFFFFFFFFFFFFFFFF :: 64 word) \<le> 7)"
proof -
  have b: "\<exists>w'. allocate serving fresh 0xFFFFFFFFFFFFFFFF world0
          = Inr (fresh\<lparr>len := 0xFFFFFFFFFFFFFFFF, mmap_len := 7, addr := 0x7F0000001000,
                       fd := 7, frame_id := 0x7F0000000FFF\<rparr>, w')
        \<and> mem w' (0x7F0000001000 + 7) = 0xAA"
    by (simp add: run_defs serving_def fresh_def world0_def)
  have c: "(0 :: 64 word) < 0xFFFFFFFFFFFFFFFF" "\<not> ((0xFFFFFFFFFFFFFFFF :: 64 word) \<le> 7)"
    "(0x7F0000001000 :: 64 word) \<noteq> nullptr" "(7 :: 64 word) < 0xFFFFFFFFFFFFFFFF"
    by (simp_all add: nullptr_def)
  from b c show ?thesis by simp
qed

text \<open>
  C1, as the code has it. Take a length for which \<open>length + PADDING_CL + 8\<close> does not
  wrap around, the heap granting the request (retried while interrupted, it comes back
  with 0) and the \<^verbatim>\<open>mmap\<close> that follows succeeding. Then \<open>allocate\<close> returns: \<open>len\<close> is
  the length asked for, \<open>mmap_len\<close> is that length plus padding plus 8 and so at least
  \<open>len\<close>, \<open>addr\<close> is the address of the mapping and is not null, and every one of the
  \<open>mmap_len\<close> bytes from \<open>addr\<close> on is 0, the first \<open>len\<close> bytes among them.
\<close>

theorem allocate_zero_filled:
  assumes "unat n + unat PADDING_CL + unat sizeof_uint64_t < 2 ^ 64"
    and "HANDLE_EINTR (ioctl_ion_alloc env) 0 (w, ion_alloc_init n) = Inr (0, (w1, ia1))"
    and "valid_mapping (k_mmap env (calls w1) (alloc_len ia1) (alloc_fd ia1))"
  shows "\<exists>this' w'. allocate env this n w = Inr (this', w')
      \<and> len this' = n \<and> n \<le> mmap_len this'
      \<and> unat (mmap_len this') = unat n + unat PADDING_CL + unat sizeof_uint64_t
      \<and> addr this' = k_mmap env (calls w1) (alloc_len ia1) (alloc_fd ia1)
      \<and> addr this' \<noteq> nullptr
      \<and> (\<forall>i<mmap_len this'. mem w' (addr this' + i) = 0)
      \<and> (\<forall>i<n. mem w' (addr this' + i) = 0)"
proof -
  from alloc_loop_Inr [OF assms(2)] have l: "alloc_len ia1 = n + PADDING_CL + sizeof_uint64_t"
    by (simp add: ion_alloc_init_def)
  from assms(3) have m: "k_mmap env (calls w1) (alloc_len ia1) (alloc_fd ia1) \<noteq> MAP_FAILED"
    "k_mmap env (calls w1) (alloc_len ia1) (alloc_fd ia1) \<noteq> nullptr"
    by (simp_all add: valid_mapping_def)
  note le = no_wrap_le [OF assms(1)]
  have inner: "\<And>i. i < n \<Longrightarrow> i < n + PADDING_CL + sizeof_uint64_t"
    using le(2) by simp
  from l le m allocate_after_loop [OF assms(2), of this] inner
  show ?thesis by (simp add: memset_inside)
qed

text \<open>
  A run of the amended C1: 4096 bytes, on a kernel that interrupts the first heap
  request and grants the second.
\<close>

theorem allocate_zero_filled_witness:
  "unat (4096 :: 64 word) + unat PADDING_CL + unat sizeof_uint64_t < 2 ^ 64
   \<and> HANDLE_EINTR
        (ioctl_ion_alloc
          (serving\<lparr>k_ion_alloc := (\<lambda>h dev ia. if length h < 2 then (- 1, EINTR, 0) else (0, 0, 7))\<rparr>))
        0 (world0, ion_alloc_init 4096)
       = Inr (0, (\<lparr>calls = [Open_dev_ion, Ioctl_ION_IOC_ALLOC 3 (ion_alloc_init 4096),
                               Ioctl_ION_IOC_ALLOC 3 (ion_alloc_init 4096)],
                     mem = (\<lambda>a. 0xAA), fh = Some 3\<rparr>,
                  (ion_alloc_init 4096)\<lparr>alloc_fd := 7\<rparr>))
   \<and> valid_mapping 0x7F0000001000
   \<and> (\<exists>this' w'.
        allocate
          (serving\<lparr>k_ion_alloc := (\<lambda>h dev ia. if length h < 2 then (- 1, EINTR, 0) else (0, 0, 7))\<rparr>)
          fresh 4096 world0 = Inr (this', w')
        \<and> len this' = 4096 \<and> 4096 \<le> mmap_len this' \<and> unat (mmap_len this') = 4104
        \<and> addr this' = 0x7F0000001000 \<and> addr this' \<noteq> nullptr
        \<and> (\<forall>i<mmap_len this'. mem w' (addr this' + i) = 0)
        \<and> (\<forall>i<4096. mem w' (addr this' + i) = 0))"
proof -
  let ?K = "serving\<lparr>k_ion_alloc := (\<lambda>h dev ia. if length h < 2 then (- 1, EINTR, 0) else (0, 0, 7))\<rparr>"
  let ?w1 = "\<lparr>calls = [Open_dev_ion, Ioctl_ION_IOC_ALLOC 3 (ion_alloc_init 4096),
                        Ioctl_ION_IOC_ALLOC 3 (ion_alloc_init 4096)],
              mem = (\<lambda>a. 0xAA), fh = Some 3\<rparr>"
  have h1: "unat (4096 :: 64 word) + unat PADDING_CL + unat sizeof_uint64_t < 2 ^ 64"
    by (simp add: PADDING_CL_def sizeof_uint64_t_def)
  have h2: "HANDLE_EINTR (ioctl_ion_alloc ?K) 0 (world0, ion_alloc_init 4096)
       = Inr (0, (?w1, (ion_alloc_init 4096)\<lparr>alloc_fd := 7\<rparr>))"
    by (simp add: HANDLE_EINTR.simps ioctl_ion_alloc_def ion_fd_def issue_def Let_def
        serving_def world0_def ion_alloc_init_def EINTR_def)
  have h4: "valid_mapping 0x7F0000001000"
    by (simp add: valid_mapping_def MAP_FAILED_def nullptr_def)
  have h3: "valid_mapping (k_mmap ?K (calls ?w1) (alloc_len ((ion_alloc_init 4096)\<lparr>alloc_fd := 7\<rparr>))
               (alloc_fd ((ion_alloc_init 4096)\<lparr>alloc_fd := 7\<rparr>)))"
    using h4 by (simp add: serving_def)
  from allocate_zero_filled [OF h1 h2 h3, of fresh]
  have "\<exists>this' w'. allocate ?K fresh 4096 world0 = Inr (this', w')
        \<and> len this' = 4096 \<and> 4096 \<le> mmap_len this' \<and> unat (mmap_len this') = 4104
        \<and> addr this' = 0x7F0000001000 \<and> addr this' \<noteq> nullptr
        \<and> (\<forall>i<mmap_len this'. mem w' (addr this' + i) = 0)
        \<and> (\<forall>i<4096. mem w' (addr this' + i) = 0)"
    by (simp add: serving_def PADDING_CL_def sizeof_uint64_t_def)
  with h1 h2 h4 show ?thesis by simp
qed

text \<open>
  C7, as stated, fails for the largest lengths. For \<^verbatim>\<open>SIZE_MAX\<close> bytes the sum
  \<open>length + PADDING_CL + sizeof(uint64_t)\<close> is 18446744073709551623, but what
  \<open>allocate\<close> requests from the heap, and records as \<open>mmap_len\<close>, is 7; and \<open>frame_id\<close>
  comes out one byte below \<open>addr\<close>, outside the 7 bytes mapped. An \<open>import\<close> over the
  lengths that allocation recorded places \<open>frame_id\<close> there as well.
\<close>

theorem allocate_request_counterexample:
  "(\<exists>w'. allocate serving fresh 0xFFFFFFFFFFFFFFFF world0
          = Inr (fresh\<lparr>len := 0xFFFFFFFFFFFFFFFF, mmap_len := 7, addr := 0x7F0000001000,
                       fd := 7, frame_id := 0x7F0000000FFF\<rparr>, w')
        \<and> calls w' = [Open_dev_ion,
                       Ioctl_ION_IOC_ALLOC 3
                         \<lparr>alloc_len = 7, alloc_heap_id_mask = 0x2000000, alloc_flags = 1, alloc_fd = 0\<rparr>,
                       Mmap 0 7 3 1 7 0])
   \<and> unat (0xFFFFFFFFFFFFFFFF :: 64 word) + unat PADDING_CL + unat sizeof_uint64_t
       = 18446744073709551623
   \<and> unat (7 :: 64 word) = 7
   \<and> (0x7F0000000FFF :: 64 word) < 0x7F0000001000
   \<and> \<not> ((0x7F0000000FFF :: 64 word) - 0x7F0000001000 < 7)
   \<and> import serving (fresh\<lparr>len := 0xFFFFFFFFFFFFFFFF, mmap_len := 7, fd := 7\<rparr>) world0
       = Inr (fresh\<lparr>len := 0xFFFFFFFFFFFFFFFF, mmap_len := 7, addr := 0x7F0000001000,
                    fd := 7, frame_id := 0x7F0000000FFF\<rparr>,
              world0\<lparr>calls := [Mmap 0 7 3 1 7 0]\<rparr>)"
proof -
  have a: "\<exists>w'. allocate serving fresh 0xFFFFFFFFFFFFFFFF world0
          = Inr (fresh\<lparr>len := 0xFFFFFFFFFFFFFFFF, mmap_len := 7, addr := 0x7F0000001000,
                       fd := 7, frame_id := 0x7F0000000FFF\<rparr>, w')
        \<and> calls w' = [Open_dev_ion,
                       Ioctl_ION_IOC_ALLOC 3
                         \<lparr>alloc_len = 7, alloc_heap_id_mask = 0x2000000, alloc_flags = 1, alloc_fd = 0\<rparr>,
                       Mmap 0 7 3 1 7 0]"
    by (simp add: run_defs serving_def fresh_def world0_def)
  have b: "unat (0xFFFFFFFFFFFFFFFF :: 64 word) + unat PADDING_CL + unat sizeof_uint64_t
       = 18446744073709551623" "unat (7 :: 64 word) = 7"
    "(0x7F0000000FFF :: 64 word) < 0x7F0000001000"
    "\<not> ((0x7F0000000FFF :: 64 word) - 0x7F0000001000 < 7)"
    by (simp_all add: PADDING_CL_def sizeof_uint64_t_def)
  have c: "import serving (fresh\<lparr>len := 0xFFFFFFFFFFFFFFFF, mmap_len := 7, fd := 7\<rparr>) world0
       = Inr (fresh\<lparr>len := 0xFFFFFFFFFFFFFFFF, mmap_len := 7, addr := 0x7F0000001000,
                    fd := 7, frame_id := 0x7F0000000FFF\<rparr>,
              world0\<lparr>calls := [Mmap 0 7 3 1 7 0]\<rparr>)"
    by (simp add: import_cases serving_def fresh_def world0_def issue_def
        MAP_FAILED_def nullptr_def PROT_READ_def PROT_WRITE_def MAP_SHARED_def PADDING_CL_def)
  from a b c show ?thesis by simp
qed

text \<open>
  C7, as the code has it. Take a length for which \<open>length + PADDING_CL + 8\<close> does not
  wrap around. When \<open>allocate\<close> returns, the log has grown by at least one heap
  allocation request, and every heap allocation request it added asks for exactly
  \<open>length + PADDING_CL + 8\<close> bytes from the system heap with the flag
  \<^verbatim>\<open>ION_FLAG_CACHED\<close>; \<open>mmap_len\<close> is that same total and \<open>len\<close> the length asked
  for; \<open>frame_id\<close> is \<open>addr + len + PADDING_CL\<close>, at offset \<open>len + PADDING_CL\<close> from
  \<open>addr\<close>, and the 8 bytes of the counter are the last 8 of the \<open>mmap_len\<close> bytes
  mapped. The same holds of \<open>frame_id\<close> after an \<open>import\<close> over lengths that agree in
  this way, \<open>mmap_len = len + PADDING_CL + 8\<close>, which \<open>import\<close> leaves as they are.
\<close>

theorem allocate_request_and_counter:
  "(allocate env this n w = Inr (this1, w1)
      \<and> unat n + unat PADDING_CL + unat sizeof_uint64_t < 2 ^ 64 \<longrightarrow>
      (\<exists>cs. calls w1 = calls w @ cs
         \<and> (\<exists>dev ia. Ioctl_ION_IOC_ALLOC dev ia \<in> set cs)
         \<and> (\<forall>dev ia. Ioctl_ION_IOC_ALLOC dev ia \<in> set cs \<longrightarrow>
               unat (alloc_len ia) = unat n + unat PADDING_CL + unat sizeof_uint64_t
               \<and> alloc_flags ia = ION_FLAG_CACHED
               \<and> alloc_heap_id_mask ia = push_bit ION_SYSTEM_HEAP_ID 1))
      \<and> unat (mmap_len this1) = unat n + unat PADDING_CL + unat sizeof_uint64_t
      \<and> len this1 = n
      \<and> frame_id this1 = addr this1 + len this1 + PADDING_CL
      \<and> unat (frame_id this1 - addr this1) = unat (len this1) + unat PADDING_CL
      \<and> unat (frame_id this1 - addr this1) + unat sizeof_uint64_t = unat (mmap_len this1))
   \<and> (import env this w = Inr (this2, w2)
      \<and> unat (len this) + unat PADDING_CL + unat sizeof_uint64_t = unat (mmap_len this) \<longrightarrow>
      len this2 = len this
      \<and> mmap_len this2 = mmap_len this
      \<and> frame_id this2 = addr this2 + len this2 + PADDING_CL
      \<and> unat (frame_id this2 - addr this2) = unat (len this2) + unat PADDING_CL
      \<and> unat (frame_id this2 - addr this2) + unat sizeof_uint64_t = unat (mmap_len this2))"
proof (intro conjI impI)
  assume h: "allocate env this n w = Inr (this1, w1)
      \<and> unat n + unat PADDING_CL + unat sizeof_uint64_t < 2 ^ 64"
  then have r: "allocate env this n w = Inr (this1, w1)"
    and nw: "unat n + unat PADDING_CL + unat sizeof_uint64_t < 2 ^ 64" by simp_all
  note tot = no_wrap_le(1) [OF nw]
  from r obtain w0 ia1 cs dev ia0 where
    l: "HANDLE_EINTR (ioctl_ion_alloc env) 0 (w, ion_alloc_init n) = Inr (0, (w0, ia1))"
    and s1: "alloc_len ia1 = n + PADDING_CL + sizeof_uint64_t"
    and s2: "calls w0 = calls w @ cs @ [Ioctl_ION_IOC_ALLOC dev ia0]"
    and s3: "list_all (heap_traffic (ion_alloc_init n)) (cs @ [Ioctl_ION_IOC_ALLOC dev ia0])"
    and s4: "mem w0 = mem w"
    and s5: "k_mmap env (calls w0) (alloc_len ia1) (alloc_fd ia1) \<noteq> MAP_FAILED"
    and s6: "this1 = this\<lparr>len := n, mmap_len := alloc_len ia1,
                   addr := k_mmap env (calls w0) (alloc_len ia1) (alloc_fd ia1),
                   fd := alloc_fd ia1,
                   frame_id := k_mmap env (calls w0) (alloc_len ia1) (alloc_fd ia1) + n + PADDING_CL\<rparr>"
    and s7: "w1 = (issue (Mmap nullptr (alloc_len ia1) (PROT_READ OR PROT_WRITE) MAP_SHARED (alloc_fd ia1) 0) w0)
                \<lparr>mem := memset (mem w0) (k_mmap env (calls w0) (alloc_len ia1) (alloc_fd ia1)) 0
                          (alloc_len ia1)\<rparr>"
    by (rule allocate_Inr_shape)
  let ?cs = "cs @ [Ioctl_ION_IOC_ALLOC dev ia0,
                   Mmap nullptr (alloc_len ia1) (PROT_READ OR PROT_WRITE) MAP_SHARED (alloc_fd ia1) 0]"
  have c1: "calls w1 = calls w @ ?cs" using s2 s7 by simp
  have c2: "\<exists>dev ia. Ioctl_ION_IOC_ALLOC dev ia \<in> set ?cs" by auto
  have c3: "\<forall>dev ia. Ioctl_ION_IOC_ALLOC dev ia \<in> set ?cs \<longrightarrow>
               unat (alloc_len ia) = unat n + unat PADDING_CL + unat sizeof_uint64_t
               \<and> alloc_flags ia = ION_FLAG_CACHED
               \<and> alloc_heap_id_mask ia = push_bit ION_SYSTEM_HEAP_ID 1"
  proof (intro allI impI)
    fix dev' ia' assume "Ioctl_ION_IOC_ALLOC dev' ia' \<in> set ?cs"
    then have "Ioctl_ION_IOC_ALLOC dev' ia' \<in> set (cs @ [Ioctl_ION_IOC_ALLOC dev ia0])" by auto
    with s3 have "heap_traffic (ion_alloc_init n) (Ioctl_ION_IOC_ALLOC dev' ia')"
      by (simp only: list_all_iff)
    then have "alloc_len ia' = n + PADDING_CL + sizeof_uint64_t
               \<and> alloc_flags ia' = ION_FLAG_CACHED
               \<and> alloc_heap_id_mask ia' = push_bit ION_SYSTEM_HEAP_ID 1"
      by (simp add: ion_alloc_init_def)
    with tot show "unat (alloc_len ia') = unat n + unat PADDING_CL + unat sizeof_uint64_t
               \<and> alloc_flags ia' = ION_FLAG_CACHED
               \<and> alloc_heap_id_mask ia' = push_bit ION_SYSTEM_HEAP_ID 1"
      by simp
  qed
  from c1 c2 c3 show "\<exists>cs. calls w1 = calls w @ cs
         \<and> (\<exists>dev ia. Ioctl_ION_IOC_ALLOC dev ia \<in> set cs)
         \<and> (\<forall>dev ia. Ioctl_ION_IOC_ALLOC dev ia \<in> set cs \<longrightarrow>
               unat (alloc_len ia) = unat n + unat PADDING_CL + unat sizeof_uint64_t
               \<and> alloc_flags ia = ION_FLAG_CACHED
               \<and> alloc_heap_id_mask ia = push_bit ION_SYSTEM_HEAP_ID 1)" by blast
  from s1 s6 tot show "unat (mmap_len this1) = unat n + unat PADDING_CL + unat sizeof_uint64_t"
    by simp
  from s6 show "len this1 = n" by simp
  from s6 show "frame_id this1 = addr this1 + len this1 + PADDING_CL" by simp
  from s6 have off: "frame_id this1 - addr this1 = n" by (simp add: PADDING_CL_def)
  from off s6 show "unat (frame_id this1 - addr this1) = unat (len this1) + unat PADDING_CL"
    by (simp add: PADDING_CL_def)
  from off s1 s6 tot
  show "unat (frame_id this1 - addr this1) + unat sizeof_uint64_t = unat (mmap_len this1)"
    by (simp add: PADDING_CL_def)
next
  assume h: "import env this w = Inr (this2, w2)
      \<and> unat (len this) + unat PADDING_CL + unat sizeof_uint64_t = unat (mmap_len this)"
  then have r: "import env this w = Inr (this2, w2)"
    and c: "unat (len this) + unat PADDING_CL + unat sizeof_uint64_t = unat (mmap_len this)"
    by simp_all
  from r have s: "this2 = this\<lparr>addr := k_mmap env (calls w) (mmap_len this) (fd this),
                     frame_id := k_mmap env (calls w) (mmap_len this) (fd this) + len this + PADDING_CL\<rparr>"
    by (auto simp add: import_cases split: if_splits)
  from s show "len this2 = len this" by simp
  from s show "mmap_len this2 = mmap_len this" by simp
  from s show "frame_id this2 = addr this2 + len this2 + PADDING_CL" by simp
  from s have off: "frame_id this2 - addr this2 = len this" by (simp add: PADDING_CL_def)
  from off s show "unat (frame_id this2 - addr this2) = unat (len this2) + unat PADDING_CL"
    by (simp add: PADDING_CL_def)
  from off s c
  show "unat (frame_id this2 - addr this2) + unat sizeof_uint64_t = unat (mmap_len this2)"
    by (simp add: PADDING_CL_def)
qed

text \<open>
  A run of the amended C7: 4096 bytes on the kernel that interrupts the first heap
  request, and an import of descriptor 7 with lengths 16 and 24.
\<close>

theorem allocate_request_and_counter_witness:
  "allocate (serving\<lparr>k_ion_alloc := (\<lambda>h dev ia. if length h < 2 then (- 1, EINTR, 0) else (0, 0, 7))\<rparr>)
       fresh 4096 world0
     = Inr (\<lparr>len = 4096, mmap_len = 4104, addr = 0x7F0000001000, frame_id = 0x7F0000002000,
              fd = 7, buf_cl = 0\<rparr>,
            \<lparr>calls = [Open_dev_ion, Ioctl_ION_IOC_ALLOC 3 (ion_alloc_init 4096),
                      Ioctl_ION_IOC_ALLOC 3 (ion_alloc_init 4096), Mmap 0 4104 3 1 7 0],
             mem = memset (\<lambda>a. 0xAA) 0x7F0000001000 0 4104, fh = Some 3\<rparr>)
   \<and> unat (4096 :: 64 word) + unat PADDING_CL + unat sizeof_uint64_t < 2 ^ 64
   \<and> (\<exists>cs. [Open_dev_ion, Ioctl_ION_IOC_ALLOC 3 (ion_alloc_init 4096),
             Ioctl_ION_IOC_ALLOC 3 (ion_alloc_init 4096), Mmap 0 4104 3 1 7 0] = calls world0 @ cs
         \<and> (\<exists>dev ia. Ioctl_ION_IOC_ALLOC dev ia \<in> set cs)
         \<and> (\<forall>dev ia. Ioctl_ION_IOC_ALLOC dev ia \<in> set cs \<longrightarrow>
               unat (alloc_len ia) = unat (4096 :: 64 word) + unat PADDING_CL + unat sizeof_uint64_t
               \<and> alloc_flags ia = ION_FLAG_CACHED
               \<and> alloc_heap_id_mask ia = push_bit ION_SYSTEM_HEAP_ID 1))
   \<and> unat (4104 :: 64 word) = unat (4096 :: 64 word) + unat PADDING_CL + unat sizeof_uint64_t
   \<and> (0x7F0000002000 :: 64 word) = 0x7F0000001000 + 4096 + PADDING_CL
   \<and> unat ((0x7F0000002000 :: 64 word) - 0x7F0000001000) = unat (4096 :: 64 word) + unat PADDING_CL
   \<and> unat ((0x7F0000002000 :: 64 word) - 0x7F0000001000) + unat sizeof_uint64_t
       = unat (4104 :: 64 word)
   \<and> import serving (fresh\<lparr>len := 16, mmap_len := 24, fd := 7\<rparr>) world0
     = Inr (mapped, world0\<lparr>calls := [Mmap 0 24 3 1 7 0]\<rparr>)
   \<and> unat (len (fresh\<lparr>len := 16, mmap_len := 24, fd := 7\<rparr>)) + unat PADDING_CL
        + unat sizeof_uint64_t = unat (mmap_len (fresh\<lparr>len := 16, mmap_len := 24, fd := 7\<rparr>))
   \<and> len mapped = len (fresh\<lparr>len := 16, mmap_len := 24, fd := 7\<rparr>)
   \<and> mmap_len mapped = mmap_len (fresh\<lparr>len := 16, mmap_len := 24, fd := 7\<rparr>)
   \<and> frame_id mapped = addr mapped + len mapped + PADDING_CL
   \<and> unat (frame_id mapped - addr mapped) = unat (len mapped) + unat PADDING_CL
   \<and> unat (frame_id mapped - addr mapped) + unat sizeof_uint64_t = unat (mmap_len mapped)"
proof -
  let ?K = "serving\<lparr>k_ion_alloc := (\<lambda>h dev ia. if length h < 2 then (- 1, EINTR, 0) else (0, 0, 7))\<rparr>"
  let ?b = "\<lparr>len = 4096, mmap_len = 4104, addr = 0x7F0000001000, frame_id = 0x7F0000002000,
              fd = 7, buf_cl = 0\<rparr>"
  let ?w = "\<lparr>calls = [Open_dev_ion, Ioctl_ION_IOC_ALLOC 3 (ion_alloc_init 4096),
                      Ioctl_ION_IOC_ALLOC 3 (ion_alloc_init 4096), Mmap 0 4104 3 1 7 0],
             mem = memset (\<lambda>a. 0xAA) 0x7F0000001000 0 4104, fh = Some 3\<rparr>"
  let ?i = "fresh\<lparr>len := 16, mmap_len := 24, fd := 7\<rparr>"
  have r1: "allocate ?K fresh 4096 world0 = Inr (?b, ?w)"
    by (simp add: allocate_def ion_alloc_init_def HANDLE_EINTR.simps ioctl_ion_alloc_def ion_fd_def
        sys_mmap_def issue_def Let_def serving_def fresh_def world0_def PADDING_CL_def
        sizeof_uint64_t_def EINTR_def nullptr_def MAP_FAILED_def PROT_READ_def PROT_WRITE_def
        MAP_SHARED_def ION_SYSTEM_HEAP_ID_def ION_FLAG_CACHED_def)
  have nw: "unat (4096 :: 64 word) + unat PADDING_CL + unat sizeof_uint64_t < 2 ^ 64"
    by (simp add: PADDING_CL_def sizeof_uint64_t_def)
  have r2: "import serving ?i world0 = Inr (mapped, world0\<lparr>calls := [Mmap 0 24 3 1 7 0]\<rparr>)"
    by (simp add: import_cases serving_def fresh_def mapped_def world0_def issue_def
        MAP_FAILED_def nullptr_def PROT_READ_def PROT_WRITE_def MAP_SHARED_def PADDING_CL_def)
  have ag: "unat (len ?i) + unat PADDING_CL + unat sizeof_uint64_t = unat (mmap_len ?i)"
    by (simp add: PADDING_CL_def sizeof_uint64_t_def)
  note t1 = allocate_request_and_counter [where env = ?K and this = fresh and n = 4096
      and w = world0 and ?this1.0 = ?b and ?w1.0 = ?w, THEN conjunct1, THEN mp,
      OF conjI [OF r1 nw], unfolded VisionBuf.simps world.simps]
  note t2 = allocate_request_and_counter [where env = serving and this = ?i
      and w = world0 and ?this2.0 = mapped and ?w2.0 = "world0\<lparr>calls := [Mmap 0 24 3 1 7 0]\<rparr>",
      THEN conjunct2, THEN mp, OF conjI [OF r2 ag]]
  show ?thesis
    apply (intro conjI)
                 apply (rule r1)
                apply (rule nw)
               apply (rule t1 [THEN conjunct1])
              apply (rule t1 [THEN conjunct2, THEN conjunct1])
             apply (rule t1 [THEN conjunct2, THEN conjunct2, THEN conjunct2, THEN conjunct1])
            apply (rule t1 [THEN conjunct2, THEN conjunct2, THEN conjunct2, THEN conjunct2,
                 THEN conjunct1])
           apply (rule t1 [THEN conjunct2, THEN conjunct2, THEN conjunct2, THEN conjunct2,
                THEN conjunct2])
          apply (rule r2)
         apply (rule ag)
        apply (rule t2 [THEN conjunct1])
       apply (rule t2 [THEN conjunct2, THEN conjunct1])
      apply (rule t2 [THEN conjunct2, THEN conjunct2, THEN conjunct1])
     apply (rule t2 [THEN conjunct2, THEN conjunct2, THEN conjunct2, THEN conjunct1])
    apply (rule t2 [THEN conjunct2, THEN conjunct2, THEN conjunct2, THEN conjunct2])
    done
qed

text \<open>
  C9. \<open>allocate\<close> has no check on its argument, so a length of 0 is permitted. When
  \<open>allocate 0\<close> returns, \<open>len\<close> is 0 and \<open>mmap_len\<close> is \<open>PADDING_CL + 8\<close>, that is 8: the
  usable region is empty, and the mapping still holds the padding and the counter:
  \<open>frame_id\<close> is \<open>addr + PADDING_CL\<close>, the counter ends where the mapping ends, and its
  bytes are 0. It faults only for the reasons any allocation does (the device cannot
  be opened, the heap denies, the mapping fails), and it does return whenever the heap
  grants the request and the mapping succeeds.
\<close>

theorem allocate_zero_length:
  "(allocate env this 0 w = Inr (this', w') \<longrightarrow>
      len this' = 0
      \<and> mmap_len this' = PADDING_CL + sizeof_uint64_t
      \<and> unat (mmap_len this') = 8
      \<and> frame_id this' = addr this' + PADDING_CL
      \<and> frame_id this' + sizeof_uint64_t = addr this' + mmap_len this'
      \<and> (\<forall>i<mmap_len this'. mem w' (addr this' + i) = 0))
   \<and> (allocate env this 0 w = Inl (f, w2) \<longrightarrow>
      f = Assert_ion_open \<or> f = Assert_alloc_err \<or> f = Assert_mmap_failed)
   \<and> (HANDLE_EINTR (ioctl_ion_alloc env) 0 (w, ion_alloc_init 0) = Inr (0, (w1, ia1))
       \<and> k_mmap env (calls w1) (alloc_len ia1) (alloc_fd ia1) \<noteq> MAP_FAILED \<longrightarrow>
      (\<exists>this' w'. allocate env this 0 w = Inr (this', w')))"
proof (intro conjI impI)
  assume r: "allocate env this 0 w = Inr (this', w')"
  from r obtain w0 ia1 cs dev ia0 where
    l: "HANDLE_EINTR (ioctl_ion_alloc env) 0 (w, ion_alloc_init 0) = Inr (0, (w0, ia1))"
    and s1: "alloc_len ia1 = 0 + PADDING_CL + sizeof_uint64_t"
    and s2: "calls w0 = calls w @ cs @ [Ioctl_ION_IOC_ALLOC dev ia0]"
    and s3: "list_all (heap_traffic (ion_alloc_init 0)) (cs @ [Ioctl_ION_IOC_ALLOC dev ia0])"
    and s4: "mem w0 = mem w"
    and s5: "k_mmap env (calls w0) (alloc_len ia1) (alloc_fd ia1) \<noteq> MAP_FAILED"
    and s6: "this' = this\<lparr>len := 0, mmap_len := alloc_len ia1,
                   addr := k_mmap env (calls w0) (alloc_len ia1) (alloc_fd ia1),
                   fd := alloc_fd ia1,
                   frame_id := k_mmap env (calls w0) (alloc_len ia1) (alloc_fd ia1) + 0 + PADDING_CL\<rparr>"
    and s7: "w' = (issue (Mmap nullptr (alloc_len ia1) (PROT_READ OR PROT_WRITE) MAP_SHARED (alloc_fd ia1) 0) w0)
                \<lparr>mem := memset (mem w0) (k_mmap env (calls w0) (alloc_len ia1) (alloc_fd ia1)) 0
                          (alloc_len ia1)\<rparr>"
    by (rule allocate_Inr_shape)
  from s6 show "len this' = 0" by simp
  from s1 s6 show "mmap_len this' = PADDING_CL + sizeof_uint64_t" by simp
  from s1 s6 show "unat (mmap_len this') = 8" by (simp add: PADDING_CL_def sizeof_uint64_t_def)
  from s6 show "frame_id this' = addr this' + PADDING_CL" by simp
  from s1 s6 show "frame_id this' + sizeof_uint64_t = addr this' + mmap_len this'" by simp
  from s6 s7 show "\<forall>i<mmap_len this'. mem w' (addr this' + i) = 0" by (simp add: memset_inside)
next
  assume "allocate env this 0 w = Inl (f, w2)"
  from allocate_Inl_fault [OF this]
  show "f = Assert_ion_open \<or> f = Assert_alloc_err \<or> f = Assert_mmap_failed" .
next
  assume "HANDLE_EINTR (ioctl_ion_alloc env) 0 (w, ion_alloc_init 0) = Inr (0, (w1, ia1))
       \<and> k_mmap env (calls w1) (alloc_len ia1) (alloc_fd ia1) \<noteq> MAP_FAILED"
  then have l: "HANDLE_EINTR (ioctl_ion_alloc env) 0 (w, ion_alloc_init 0) = Inr (0, (w1, ia1))"
    and m: "k_mmap env (calls w1) (alloc_len ia1) (alloc_fd ia1) \<noteq> MAP_FAILED" by simp_all
  from allocate_after_loop [OF l, of this] m
  show "\<exists>this' w'. allocate env this 0 w = Inr (this', w')" by simp
qed

text \<open>
  Two runs of C9: a kernel that serves everything (the 8 bytes are mapped and zeroed),
  and a heap that denies the request.
\<close>

theorem allocate_zero_length_witness:
  "allocate serving fresh 0 world0
     = Inr (\<lparr>len = 0, mmap_len = 8, addr = 0x7F0000001000, frame_id = 0x7F0000001000,
              fd = 7, buf_cl = 0\<rparr>,
            \<lparr>calls = [Open_dev_ion, Ioctl_ION_IOC_ALLOC 3 (ion_alloc_init 0), Mmap 0 8 3 1 7 0],
             mem = memset (\<lambda>a. 0xAA) 0x7F0000001000 0 8, fh = Some 3\<rparr>)
   \<and> (8 :: 64 word) = PADDING_CL + sizeof_uint64_t
   \<and> unat (8 :: 64 word) = 8
   \<and> (0x7F0000001000 :: 64 word) = 0x7F0000001000 + PADDING_CL
   \<and> (0x7F0000001000 :: 64 word) + sizeof_uint64_t = 0x7F0000001000 + 8
   \<and> memset (\<lambda>a. 0xAA) 0x7F0000001000 0 8 (0x7F0000001000 + 0) = 0
   \<and> memset (\<lambda>a. 0xAA) 0x7F0000001000 0 8 (0x7F0000001000 + 7) = 0
   \<and> allocate (serving\<lparr>k_ion_alloc := (\<lambda>h dev ia. (- 1, 12, 0))\<rparr>) fresh 0 world0
     = Inl (Assert_alloc_err,
            world0\<lparr>calls := [Open_dev_ion, Ioctl_ION_IOC_ALLOC 3 (ion_alloc_init 0)],
                   fh := Some 3\<rparr>)
   \<and> (Assert_alloc_err = Assert_ion_open \<or> Assert_alloc_err = Assert_alloc_err
        \<or> Assert_alloc_err = Assert_mmap_failed)"
proof -
  let ?b = "\<lparr>len = 0, mmap_len = 8, addr = 0x7F0000001000, frame_id = 0x7F0000001000,
              fd = 7, buf_cl = 0\<rparr>"
  let ?w = "\<lparr>calls = [Open_dev_ion, Ioctl_ION_IOC_ALLOC 3 (ion_alloc_init 0), Mmap 0 8 3 1 7 0],
             mem = memset (\<lambda>a. 0xAA) 0x7F0000001000 0 8, fh = Some 3\<rparr>"
  let ?deny = "serving\<lparr>k_ion_alloc := (\<lambda>h dev ia. (- 1, 12, 0))\<rparr>"
  let ?w2 = "world0\<lparr>calls := [Open_dev_ion, Ioctl_ION_IOC_ALLOC 3 (ion_alloc_init 0)],
                   fh := Some 3\<rparr>"
  have r1: "allocate serving fresh 0 world0 = Inr (?b, ?w)"
    by (simp add: allocate_def ion_alloc_init_def HANDLE_EINTR.simps ioctl_ion_alloc_def ion_fd_def
        sys_mmap_def issue_def Let_def serving_def fresh_def world0_def PADDING_CL_def
        sizeof_uint64_t_def EINTR_def nullptr_def MAP_FAILED_def PROT_READ_def PROT_WRITE_def
        MAP_SHARED_def ION_SYSTEM_HEAP_ID_def ION_FLAG_CACHED_def)
  have r2: "allocate ?deny fresh 0 world0 = Inl (Assert_alloc_err, ?w2)"
    by (simp add: allocate_def ion_alloc_init_def HANDLE_EINTR.simps ioctl_ion_alloc_def ion_fd_def
        sys_mmap_def issue_def Let_def serving_def fresh_def world0_def PADDING_CL_def
        sizeof_uint64_t_def EINTR_def)
  note t1 = allocate_zero_length [where env = serving and this = fresh and w = world0
      and this' = ?b and w' = ?w, THEN conjunct1, THEN mp, OF r1,
      unfolded VisionBuf.simps world.simps]
  note t2 = allocate_zero_length [where env = ?deny and this = fresh and w = world0
      and f = Assert_alloc_err and ?w2.0 = ?w2, THEN conjunct2, THEN conjunct1, THEN mp, OF r2]
  have lt0: "(0 :: 64 word) < 8" and lt7: "(7 :: 64 word) < 8" by simp_all
  show ?thesis
    apply (intro conjI)
            apply (rule r1)
           apply (rule t1 [THEN conjunct2, THEN conjunct1])
          apply (rule t1 [THEN conjunct2, THEN conjunct2, THEN conjunct1])
         apply (rule t1 [THEN conjunct2, THEN conjunct2, THEN conjunct2, THEN conjunct1])
        apply (rule t1 [THEN conjunct2, THEN conjunct2, THEN conjunct2, THEN conjunct2, THEN conjunct1])
       apply (rule t1 [THEN conjunct2, THEN conjunct2, THEN conjunct2, THEN conjunct2, THEN conjunct2,
            rule_format, of 0, OF lt0])
      apply (rule t1 [THEN conjunct2, THEN conjunct2, THEN conjunct2, THEN conjunct2, THEN conjunct2,
            rule_format, of 7, OF lt7])
     apply (rule r2)
    apply (rule t2)
    done
qed

subsection \<open>Fatal conditions\<close>

text \<open>
  C6. Each of these ends the operation with a fault, at that point, and not with a
  returned status. In \<open>allocate\<close>: the heap request (retried while interrupted) coming
  back with anything but 0, after which nothing but heap traffic has been issued and
  memory is untouched; and the \<^verbatim>\<open>mmap\<close> answering \<^verbatim>\<open>MAP_FAILED\<close>, the \<^verbatim>\<open>mmap\<close>
  being the last call made. In \<open>import\<close>: a negative descriptor, before any call is
  made; and the \<^verbatim>\<open>mmap\<close> answering \<^verbatim>\<open>MAP_FAILED\<close>. In \<open>init_cl\<close>: an address that
  is not a multiple of \<^verbatim>\<open>DEVICE_PAGE_SIZE_CL\<close>, before any call is made; and
  \<^verbatim>\<open>clCreateBuffer\<close> storing a nonzero error code.
\<close>

theorem fatal_conditions:
  "(HANDLE_EINTR (ioctl_ion_alloc env) 0 (w, ion_alloc_init n) = Inr (err, (w1, ia1)) \<and> err \<noteq> 0
      \<longrightarrow> allocate env this n w = Inl (Assert_alloc_err, w1)
        \<and> mem w1 = mem w
        \<and> list_all (heap_traffic (ion_alloc_init n)) (drop (length (calls w)) (calls w1)))
   \<and> (HANDLE_EINTR (ioctl_ion_alloc env) 0 (w, ion_alloc_init n) = Inr (0, (w1, ia1))
       \<and> k_mmap env (calls w1) (alloc_len ia1) (alloc_fd ia1) = MAP_FAILED
      \<longrightarrow> allocate env this n w
          = Inl (Assert_mmap_failed,
                 issue (Mmap nullptr (alloc_len ia1) (PROT_READ OR PROT_WRITE) MAP_SHARED
                          (alloc_fd ia1) 0) w1)
        \<and> mem w1 = mem w)
   \<and> (fd this < 0 \<longrightarrow> import env this w = Inl (Assert_fd_nonneg, w))
   \<and> (0 \<le> fd this \<and> k_mmap env (calls w) (mmap_len this) (fd this) = MAP_FAILED
      \<longrightarrow> import env this w
          = Inl (Assert_mmap_failed,
                 issue (Mmap nullptr (mmap_len this) (PROT_READ OR PROT_WRITE) MAP_SHARED
                          (fd this) 0) w))
   \<and> (addr this mod DEVICE_PAGE_SIZE_CL \<noteq> 0
      \<longrightarrow> init_cl env this device_id ctx w = Inl (Assert_page_aligned, w))
   \<and> (addr this mod DEVICE_PAGE_SIZE_CL = 0
       \<and> snd (k_clCreateBuffer env (calls w) ctx (CL_MEM_USE_HOST_PTR OR CL_MEM_EXT_HOST_PTR_QCOM)
                 (len this)
                 \<lparr>allocation_type = CL_MEM_ION_HOST_PTR_QCOM,
                  host_cache_policy = CL_MEM_HOST_UNCACHED_QCOM,
                  ion_filedesc = fd this, ion_hostptr = addr this\<rparr>) \<noteq> 0
      \<longrightarrow> init_cl env this device_id ctx w
          = Inl (Assert_cl_err,
                 issue (ClCreateBuffer ctx (CL_MEM_USE_HOST_PTR OR CL_MEM_EXT_HOST_PTR_QCOM)
                          (len this)
                          \<lparr>allocation_type = CL_MEM_ION_HOST_PTR_QCOM,
                           host_cache_policy = CL_MEM_HOST_UNCACHED_QCOM,
                           ion_filedesc = fd this, ion_hostptr = addr this\<rparr>) w))"
proof (intro conjI impI)
  assume h: "HANDLE_EINTR (ioctl_ion_alloc env) 0 (w, ion_alloc_init n) = Inr (err, (w1, ia1)) \<and> err \<noteq> 0"
  then have l: "HANDLE_EINTR (ioctl_ion_alloc env) 0 (w, ion_alloc_init n) = Inr (err, (w1, ia1))"
    and e: "err \<noteq> 0" by simp_all
  from allocate_after_loop [OF l, of this] e
  show "allocate env this n w = Inl (Assert_alloc_err, w1)" by simp
  from alloc_loop_Inr [OF l] show "mem w1 = mem w" by simp
  from alloc_loop_Inr [OF l]
  show "list_all (heap_traffic (ion_alloc_init n)) (drop (length (calls w)) (calls w1))" by auto
next
  assume h: "HANDLE_EINTR (ioctl_ion_alloc env) 0 (w, ion_alloc_init n) = Inr (0, (w1, ia1))
       \<and> k_mmap env (calls w1) (alloc_len ia1) (alloc_fd ia1) = MAP_FAILED"
  then have l: "HANDLE_EINTR (ioctl_ion_alloc env) 0 (w, ion_alloc_init n) = Inr (0, (w1, ia1))"
    and m: "k_mmap env (calls w1) (alloc_len ia1) (alloc_fd ia1) = MAP_FAILED" by simp_all
  from allocate_after_loop [OF l, of this] m
  show "allocate env this n w
          = Inl (Assert_mmap_failed,
                 issue (Mmap nullptr (alloc_len ia1) (PROT_READ OR PROT_WRITE) MAP_SHARED
                          (alloc_fd ia1) 0) w1)" by simp
  from alloc_loop_Inr [OF l] show "mem w1 = mem w" by simp
next
  assume "fd this < 0"
  then show "import env this w = Inl (Assert_fd_nonneg, w)" by (simp add: import_cases)
next
  assume "0 \<le> fd this \<and> k_mmap env (calls w) (mmap_len this) (fd this) = MAP_FAILED"
  then show "import env this w
          = Inl (Assert_mmap_failed,
                 issue (Mmap nullptr (mmap_len this) (PROT_READ OR PROT_WRITE) MAP_SHARED
                          (fd this) 0) w)" by (simp add: import_cases)
next
  assume "addr this mod DEVICE_PAGE_SIZE_CL \<noteq> 0"
  then show "init_cl env this device_id ctx w = Inl (Assert_page_aligned, w)"
    by (simp add: init_cl_def)
next
  assume "addr this mod DEVICE_PAGE_SIZE_CL = 0
       \<and> snd (k_clCreateBuffer env (calls w) ctx (CL_MEM_USE_HOST_PTR OR CL_MEM_EXT_HOST_PTR_QCOM)
                 (len this)
                 \<lparr>allocation_type = CL_MEM_ION_HOST_PTR_QCOM,
                  host_cache_policy = CL_MEM_HOST_UNCACHED_QCOM,
                  ion_filedesc = fd this, ion_hostptr = addr this\<rparr>) \<noteq> 0"
  then show "init_cl env this device_id ctx w
          = Inl (Assert_cl_err,
                 issue (ClCreateBuffer ctx (CL_MEM_USE_HOST_PTR OR CL_MEM_EXT_HOST_PTR_QCOM)
                          (len this)
                          \<lparr>allocation_type = CL_MEM_ION_HOST_PTR_QCOM,
                           host_cache_policy = CL_MEM_HOST_UNCACHED_QCOM,
                           ion_filedesc = fd this, ion_hostptr = addr this\<rparr>) w)"
    by (auto simp add: init_cl_def Let_def split: prod.splits)
qed

text \<open>
  Six runs of C6, one per condition: a heap that denies (\<^verbatim>\<open>ENOMEM\<close>), a mapper that
  fails under \<open>allocate\<close>, descriptor -1, a mapper that fails under \<open>import\<close>, an
  address 16 bytes past a page boundary, and a runtime that rejects the registration
  (-30 is \<^verbatim>\<open>CL_INVALID_VALUE\<close>).
\<close>

theorem fatal_conditions_witness:
  "allocate (serving\<lparr>k_ion_alloc := (\<lambda>h dev ia. (- 1, 12, 0))\<rparr>) fresh 4096 world0
     = Inl (Assert_alloc_err,
            world0\<lparr>calls := [Open_dev_ion, Ioctl_ION_IOC_ALLOC 3 (ion_alloc_init 4096)],
                   fh := Some 3\<rparr>)
   \<and> allocate (serving\<lparr>k_mmap := (\<lambda>h n d. MAP_FAILED)\<rparr>) fresh 4096 world0
     = Inl (Assert_mmap_failed,
            world0\<lparr>calls := [Open_dev_ion, Ioctl_ION_IOC_ALLOC 3 (ion_alloc_init 4096),
                              Mmap 0 4104 3 1 7 0],
                   fh := Some 3\<rparr>)
   \<and> import serving (mapped\<lparr>fd := - 1\<rparr>) world0 = Inl (Assert_fd_nonneg, world0)
   \<and> import (serving\<lparr>k_mmap := (\<lambda>h n d. MAP_FAILED)\<rparr>) mapped world0
     = Inl (Assert_mmap_failed, world0\<lparr>calls := [Mmap 0 24 3 1 7 0]\<rparr>)
   \<and> init_cl serving (mapped\<lparr>addr := 0x7F0000001010\<rparr>) 0 0 world0
     = Inl (Assert_page_aligned, world0)
   \<and> init_cl (serving\<lparr>k_clCreateBuffer := (\<lambda>h ctx fl n p. (0, - 30))\<rparr>) mapped 0 0 world0
     = Inl (Assert_cl_err,
            world0\<lparr>calls := [ClCreateBuffer 0 0x20000008 16
                                \<lparr>allocation_type = 0x40A8, host_cache_policy = 0x40A4,
                                 ion_filedesc = 7, ion_hostptr = 0x7F0000001000\<rparr>]\<rparr>)"
proof -
  let ?deny = "serving\<lparr>k_ion_alloc := (\<lambda>h dev ia. (- 1, 12, 0))\<rparr>"
  let ?nomap = "serving\<lparr>k_mmap := (\<lambda>h n d. MAP_FAILED)\<rparr>"
  let ?nocl = "serving\<lparr>k_clCreateBuffer := (\<lambda>h ctx fl n p. (0, - 30))\<rparr>"
  let ?w1 = "world0\<lparr>calls := [Open_dev_ion, Ioctl_ION_IOC_ALLOC 3 (ion_alloc_init 4096)],
                    fh := Some 3\<rparr>"
  have l1: "HANDLE_EINTR (ioctl_ion_alloc ?deny) 0 (world0, ion_alloc_init 4096)
       = Inr (- 1, (?w1, (ion_alloc_init 4096)\<lparr>alloc_fd := 0\<rparr>)) \<and> (- 1 :: int) \<noteq> 0"
    by (simp add: HANDLE_EINTR.simps ioctl_ion_alloc_def ion_fd_def issue_def Let_def
        serving_def world0_def ion_alloc_init_def EINTR_def)
  have l2: "HANDLE_EINTR (ioctl_ion_alloc ?nomap) 0 (world0, ion_alloc_init 4096)
       = Inr (0, (?w1, (ion_alloc_init 4096)\<lparr>alloc_fd := 7\<rparr>))
     \<and> k_mmap ?nomap (calls ?w1) (alloc_len ((ion_alloc_init 4096)\<lparr>alloc_fd := 7\<rparr>))
          (alloc_fd ((ion_alloc_init 4096)\<lparr>alloc_fd := 7\<rparr>)) = MAP_FAILED"
    by (simp add: HANDLE_EINTR.simps ioctl_ion_alloc_def ion_fd_def issue_def Let_def
        serving_def world0_def ion_alloc_init_def EINTR_def)
  have l3: "fd (mapped\<lparr>fd := - 1\<rparr>) < 0" by simp
  have l4: "0 \<le> fd mapped \<and> k_mmap ?nomap (calls world0) (mmap_len mapped) (fd mapped) = MAP_FAILED"
    by (simp add: mapped_def serving_def)
  have l5: "addr (mapped\<lparr>addr := 0x7F0000001010\<rparr>) mod DEVICE_PAGE_SIZE_CL \<noteq> 0"
    by (simp add: DEVICE_PAGE_SIZE_CL_def)
  have l6: "addr mapped mod DEVICE_PAGE_SIZE_CL = 0
       \<and> snd (k_clCreateBuffer ?nocl (calls world0) 0 (CL_MEM_USE_HOST_PTR OR CL_MEM_EXT_HOST_PTR_QCOM)
                 (len mapped)
                 \<lparr>allocation_type = CL_MEM_ION_HOST_PTR_QCOM,
                  host_cache_policy = CL_MEM_HOST_UNCACHED_QCOM,
                  ion_filedesc = fd mapped, ion_hostptr = addr mapped\<rparr>) \<noteq> 0"
    by (simp add: mapped_def DEVICE_PAGE_SIZE_CL_def serving_def)
  note t1 = fatal_conditions [where env = ?deny and w = world0 and n = 4096 and this = fresh,
      THEN conjunct1, THEN mp, OF l1]
  note t2 = fatal_conditions [where env = ?nomap and w = world0 and n = 4096 and this = fresh,
      THEN conjunct2, THEN conjunct1, THEN mp, OF l2]
  note t3 = fatal_conditions [where env = serving and w = world0 and this = "mapped\<lparr>fd := - 1\<rparr>",
      THEN conjunct2, THEN conjunct2, THEN conjunct1, THEN mp, OF l3]
  note t4 = fatal_conditions [where env = ?nomap and w = world0 and this = mapped,
      THEN conjunct2, THEN conjunct2, THEN conjunct2, THEN conjunct1, THEN mp, OF l4]
  note t5 = fatal_conditions [where env = serving and w = world0
      and this = "mapped\<lparr>addr := 0x7F0000001010\<rparr>" and device_id = 0 and ctx = 0,
      THEN conjunct2, THEN conjunct2, THEN conjunct2, THEN conjunct2, THEN conjunct1, THEN mp, OF l5]
  note t6 = fatal_conditions [where env = ?nocl and w = world0 and this = mapped
      and device_id = 0 and ctx = 0,
      THEN conjunct2, THEN conjunct2, THEN conjunct2, THEN conjunct2, THEN conjunct2, THEN mp, OF l6]
  have c1: "allocate ?deny fresh 4096 world0 = Inl (Assert_alloc_err, ?w1)"
    using t1 by simp
  have c2: "allocate ?nomap fresh 4096 world0
     = Inl (Assert_mmap_failed,
            world0\<lparr>calls := [Open_dev_ion, Ioctl_ION_IOC_ALLOC 3 (ion_alloc_init 4096),
                              Mmap 0 4104 3 1 7 0],
                   fh := Some 3\<rparr>)"
    using t2 by (simp add: issue_def world0_def ion_alloc_init_def nullptr_def PROT_READ_def
        PROT_WRITE_def MAP_SHARED_def PADDING_CL_def sizeof_uint64_t_def)
  have c4: "import ?nomap mapped world0
     = Inl (Assert_mmap_failed, world0\<lparr>calls := [Mmap 0 24 3 1 7 0]\<rparr>)"
    using t4 by (simp add: issue_def world0_def mapped_def nullptr_def PROT_READ_def
        PROT_WRITE_def MAP_SHARED_def)
  have c6: "init_cl ?nocl mapped 0 0 world0
     = Inl (Assert_cl_err,
            world0\<lparr>calls := [ClCreateBuffer 0 0x20000008 16
                                \<lparr>allocation_type = 0x40A8, host_cache_policy = 0x40A4,
                                 ion_filedesc = 7, ion_hostptr = 0x7F0000001000\<rparr>]\<rparr>)"
    using t6 by (simp add: issue_def world0_def mapped_def CL_MEM_USE_HOST_PTR_def
        CL_MEM_EXT_HOST_PTR_QCOM_def CL_MEM_ION_HOST_PTR_QCOM_def CL_MEM_HOST_UNCACHED_QCOM_def)
  from c1 c2 t3 c4 t5 c6 show ?thesis by simp
qed

subsection \<open>Release\<close>

text \<open>
  C2. \<open>free\<close> takes its steps in the order release of the OpenCL memory object,
  \<^verbatim>\<open>munmap\<close>, \<^verbatim>\<open>close\<close>, and the log it leaves is fixed by the answers it gets. On an
  object that was never registered (\<open>buf_cl\<close> null) no release of a memory object is
  attempted. On a registered object the release comes first; when it answers with an
  error, \<open>free\<close> returns that error and the release is the only call made: no
  \<^verbatim>\<open>munmap\<close>, no \<^verbatim>\<open>close\<close>. Once the release step is passed (absent, or answered 0)
  the \<^verbatim>\<open>munmap\<close> of \<open>mmap_len\<close> bytes at \<open>addr\<close> follows; when it answers 0 the
  \<^verbatim>\<open>close\<close> of \<open>fd\<close> follows, these are all the calls made, and \<open>free\<close> returns the
  answer of \<^verbatim>\<open>close\<close>. When the \<^verbatim>\<open>munmap\<close> answers with an error, that error is
  returned and the \<^verbatim>\<open>munmap\<close> is the last call.
\<close>

theorem free_order:
  assumes "free env this w = (ret, this', w')"
  shows "(buf_cl this = nullptr \<longrightarrow>
          (\<forall>m. ClReleaseMemObject m \<notin> set (drop (length (calls w)) (calls w'))))
    \<and> (buf_cl this \<noteq> nullptr \<and> k_clReleaseMemObject env (calls w) (buf_cl this) \<noteq> 0 \<longrightarrow>
          ret = k_clReleaseMemObject env (calls w) (buf_cl this)
          \<and> calls w' = calls w @ [ClReleaseMemObject (buf_cl this)])
    \<and> ((buf_cl this \<noteq> nullptr \<longrightarrow> k_clReleaseMemObject env (calls w) (buf_cl this) = 0)
        \<and> k_munmap env
             (calls w @ (if buf_cl this \<noteq> nullptr then [ClReleaseMemObject (buf_cl this)] else []))
             (addr this) (mmap_len this) = 0 \<longrightarrow>
          ret = k_close env
             (calls w @ (if buf_cl this \<noteq> nullptr then [ClReleaseMemObject (buf_cl this)] else [])
                @ [Munmap (addr this) (mmap_len this)])
             (fd this)
          \<and> calls w' = calls w
               @ (if buf_cl this \<noteq> nullptr then [ClReleaseMemObject (buf_cl this)] else [])
               @ [Munmap (addr this) (mmap_len this), Close (fd this)])
    \<and> ((buf_cl this \<noteq> nullptr \<longrightarrow> k_clReleaseMemObject env (calls w) (buf_cl this) = 0)
        \<and> k_munmap env
             (calls w @ (if buf_cl this \<noteq> nullptr then [ClReleaseMemObject (buf_cl this)] else []))
             (addr this) (mmap_len this) \<noteq> 0 \<longrightarrow>
          ret = k_munmap env
             (calls w @ (if buf_cl this \<noteq> nullptr then [ClReleaseMemObject (buf_cl this)] else []))
             (addr this) (mmap_len this)
          \<and> calls w' = calls w
               @ (if buf_cl this \<noteq> nullptr then [ClReleaseMemObject (buf_cl this)] else [])
               @ [Munmap (addr this) (mmap_len this)])"
proof (cases "buf_cl this = nullptr")
  case True
  with free_cases [OF assms] show ?thesis by auto
next
  case False
  with free_cases [OF assms] show ?thesis by auto
qed

text \<open>
  Four runs of C2, each one determined by the theorem: a registered object whose memory
  object the runtime refuses to release (-38 is \<^verbatim>\<open>CL_INVALID_MEM_OBJECT\<close>), a
  registered and an unregistered object on a kernel that serves everything, and a
  registered object whose mapping cannot be removed.
\<close>

theorem free_order_witness:
  "free (serving\<lparr>k_clReleaseMemObject := (\<lambda>h m. - 38)\<rparr>) (mapped\<lparr>buf_cl := 0x5000\<rparr>) world0
     = (- 38, mapped\<lparr>buf_cl := 0x5000\<rparr>, world0\<lparr>calls := [ClReleaseMemObject 0x5000]\<rparr>)
   \<and> free serving (mapped\<lparr>buf_cl := 0x5000\<rparr>) world0
     = (0, mapped\<lparr>buf_cl := 0x5000\<rparr>,
        world0\<lparr>calls := [ClReleaseMemObject 0x5000, Munmap 0x7F0000001000 24, Close 7]\<rparr>)
   \<and> free serving mapped world0
     = (0, mapped, world0\<lparr>calls := [Munmap 0x7F0000001000 24, Close 7]\<rparr>)
   \<and> (\<forall>m. ClReleaseMemObject m \<notin> set [Munmap 0x7F0000001000 24, Close 7])
   \<and> free (serving\<lparr>k_munmap := (\<lambda>h a n. - 1)\<rparr>) (mapped\<lparr>buf_cl := 0x5000\<rparr>) world0
     = (- 1, mapped\<lparr>buf_cl := 0x5000\<rparr>,
        world0\<lparr>calls := [ClReleaseMemObject 0x5000, Munmap 0x7F0000001000 24]\<rparr>)"
proof -
  let ?reg = "mapped\<lparr>buf_cl := 0x5000\<rparr>"
  let ?norel = "serving\<lparr>k_clReleaseMemObject := (\<lambda>h m. - 38)\<rparr>"
  let ?nounmap = "serving\<lparr>k_munmap := (\<lambda>h a n. - 1)\<rparr>"
  obtain r1 b1 w1 where f1: "free ?norel ?reg world0 = (r1, b1, w1)" by (metis prod.collapse)
  obtain r2 b2 w2 where f2: "free serving ?reg world0 = (r2, b2, w2)" by (metis prod.collapse)
  obtain r3 b3 w3 where f3: "free serving mapped world0 = (r3, b3, w3)" by (metis prod.collapse)
  obtain r4 b4 w4 where f4: "free ?nounmap ?reg world0 = (r4, b4, w4)" by (metis prod.collapse)
  have same: "b1 = ?reg" "b2 = ?reg" "b3 = mapped" "b4 = ?reg"
    "mem w1 = mem world0" "mem w2 = mem world0" "mem w3 = mem world0" "mem w4 = mem world0"
    "fh w1 = fh world0" "fh w2 = fh world0" "fh w3 = fh world0" "fh w4 = fh world0"
    using free_cases [OF f1] free_cases [OF f2] free_cases [OF f3] free_cases [OF f4] by simp_all
  have reg: "buf_cl ?reg \<noteq> nullptr" "buf_cl mapped = nullptr"
    by (simp_all add: mapped_def nullptr_def)
  from free_order [OF f1] reg
  have c1: "r1 = - 38" "calls w1 = calls world0 @ [ClReleaseMemObject (buf_cl ?reg)]"
    by (simp_all add: serving_def)
  from free_order [OF f2] reg
  have c2: "r2 = 0" "calls w2 = calls world0
      @ [ClReleaseMemObject (buf_cl ?reg), Munmap (addr ?reg) (mmap_len ?reg), Close (fd ?reg)]"
    by (simp_all add: serving_def)
  from free_order [OF f3] reg
  have c3: "r3 = 0" "calls w3 = calls world0
      @ [Munmap (addr mapped) (mmap_len mapped), Close (fd mapped)]"
    "\<forall>m. ClReleaseMemObject m \<notin> set (drop (length (calls world0)) (calls w3))"
    by (simp_all add: serving_def)
  from free_order [OF f4] reg
  have c4: "r4 = - 1" "calls w4 = calls world0
      @ [ClReleaseMemObject (buf_cl ?reg), Munmap (addr ?reg) (mmap_len ?reg)]"
    by (simp_all add: serving_def)
  have w: "w1 = world0\<lparr>calls := [ClReleaseMemObject 0x5000]\<rparr>"
    "w2 = world0\<lparr>calls := [ClReleaseMemObject 0x5000, Munmap 0x7F0000001000 24, Close 7]\<rparr>"
    "w3 = world0\<lparr>calls := [Munmap 0x7F0000001000 24, Close 7]\<rparr>"
    "w4 = world0\<lparr>calls := [ClReleaseMemObject 0x5000, Munmap 0x7F0000001000 24]\<rparr>"
    using same c1 c2 c3 c4 by (simp_all add: world0_def mapped_def)
  from f1 f2 f3 f4 same c1 c2 c3 c4 w show ?thesis by simp
qed

text \<open>
  C3, as stated, fails: when \<^verbatim>\<open>munmap\<close> answers -1, \<open>free\<close> returns -1 at once and the
  descriptor is not closed in that call.
\<close>

theorem free_unmap_failure_counterexample:
  "free (serving\<lparr>k_munmap := (\<lambda>h a n. - 1)\<rparr>) mapped world0
     = (- 1, mapped, world0\<lparr>calls := [Munmap 0x7F0000001000 24]\<rparr>)
   \<and> Close (fd mapped)
       \<notin> set (calls (snd (snd (free (serving\<lparr>k_munmap := (\<lambda>h a n. - 1)\<rparr>) mapped world0))))"
  by (simp add: free_def serving_def mapped_def world0_def nullptr_def issue_def)

text \<open>
  C3, as the code has it. Within one call, \<open>free\<close> runs the steps whose resource is
  present in order and stops at the first one that fails: the calls it makes are the
  first \<open>k\<close> steps, at least one; every step before the last one made answered 0; what
  \<open>free\<close> returns is the answer of the last step made; and it stops short of the full
  sequence only on an answer that is not 0. So every step is run exactly when every
  step before it succeeded, and none after a failure. In particular, when the release
  step is passed and \<^verbatim>\<open>munmap\<close> fails, the \<^verbatim>\<open>munmap\<close> error is returned and the
  descriptor is not closed.
\<close>

theorem free_stops_at_first_failure:
  assumes "free env this w = (ret, this', w')"
  shows "(\<exists>k. 1 \<le> k \<and> k \<le> length (teardown_steps this)
        \<and> calls w' = calls w @ take k (teardown_steps this)
        \<and> (\<forall>i<k - 1. answer env (calls w @ take i (teardown_steps this)) (teardown_steps this ! i) = 0)
        \<and> ret = answer env (calls w @ take (k - 1) (teardown_steps this))
                   (teardown_steps this ! (k - 1))
        \<and> (k < length (teardown_steps this) \<longrightarrow> ret \<noteq> 0))
    \<and> ((buf_cl this \<noteq> nullptr \<longrightarrow> k_clReleaseMemObject env (calls w) (buf_cl this) = 0)
        \<and> k_munmap env
             (calls w @ (if buf_cl this \<noteq> nullptr then [ClReleaseMemObject (buf_cl this)] else []))
             (addr this) (mmap_len this) \<noteq> 0 \<longrightarrow>
          ret = k_munmap env
             (calls w @ (if buf_cl this \<noteq> nullptr then [ClReleaseMemObject (buf_cl this)] else []))
             (addr this) (mmap_len this)
          \<and> Close (fd this) \<notin> set (drop (length (calls w)) (calls w')))"
proof (intro conjI)
  let ?st = "teardown_steps this"
  let ?P = "\<lambda>k. 1 \<le> k \<and> k \<le> length ?st
        \<and> calls w' = calls w @ take k ?st
        \<and> (\<forall>i<k - 1. answer env (calls w @ take i ?st) (?st ! i) = 0)
        \<and> ret = answer env (calls w @ take (k - 1) ?st) (?st ! (k - 1))
        \<and> (k < length ?st \<longrightarrow> ret \<noteq> 0)"
  show "\<exists>k. ?P k"
  proof (cases "buf_cl this = nullptr")
    case True
    then have st: "?st = [Munmap (addr this) (mmap_len this), Close (fd this)]"
      by (simp add: teardown_steps_def)
    from free_cases [OF assms] True
    consider (b) "ret \<noteq> 0" "ret = k_munmap env (calls w) (addr this) (mmap_len this)"
        "calls w' = calls w @ [Munmap (addr this) (mmap_len this)]"
      | (c) "k_munmap env (calls w) (addr this) (mmap_len this) = 0"
        "ret = k_close env (calls w @ [Munmap (addr this) (mmap_len this)]) (fd this)"
        "calls w' = calls w @ [Munmap (addr this) (mmap_len this), Close (fd this)]"
      by auto
    then show ?thesis
    proof cases
      case b
      then have "?P 1" by (simp add: st)
      then show ?thesis ..
    next
      case c
      then have "?P 2" by (simp add: st)
      then show ?thesis ..
    qed
  next
    case False
    then have st: "?st = [ClReleaseMemObject (buf_cl this), Munmap (addr this) (mmap_len this),
        Close (fd this)]"
      by (simp add: teardown_steps_def)
    from free_cases [OF assms] False
    consider (a) "ret \<noteq> 0" "ret = k_clReleaseMemObject env (calls w) (buf_cl this)"
        "calls w' = calls w @ [ClReleaseMemObject (buf_cl this)]"
      | (b) "k_clReleaseMemObject env (calls w) (buf_cl this) = 0" "ret \<noteq> 0"
        "ret = k_munmap env (calls w @ [ClReleaseMemObject (buf_cl this)]) (addr this) (mmap_len this)"
        "calls w' = calls w @ [ClReleaseMemObject (buf_cl this), Munmap (addr this) (mmap_len this)]"
      | (c) "k_clReleaseMemObject env (calls w) (buf_cl this) = 0"
        "k_munmap env (calls w @ [ClReleaseMemObject (buf_cl this)]) (addr this) (mmap_len this) = 0"
        "ret = k_close env (calls w @ [ClReleaseMemObject (buf_cl this),
                 Munmap (addr this) (mmap_len this)]) (fd this)"
        "calls w' = calls w @ [ClReleaseMemObject (buf_cl this), Munmap (addr this) (mmap_len this),
                 Close (fd this)]"
      by auto
    then show ?thesis
    proof cases
      case a
      then have "?P 1" by (simp add: st)
      then show ?thesis ..
    next
      case b
      then have "?P 2" by (simp add: st)
      then show ?thesis ..
    next
      case c
      have two: "\<And>i::nat. i < 2 \<longleftrightarrow> i = 0 \<or> i = 1" by auto
      from c have "?P 3" by (simp add: st two)
      then show ?thesis ..
    qed
  qed
next
  show "(buf_cl this \<noteq> nullptr \<longrightarrow> k_clReleaseMemObject env (calls w) (buf_cl this) = 0)
        \<and> k_munmap env
             (calls w @ (if buf_cl this \<noteq> nullptr then [ClReleaseMemObject (buf_cl this)] else []))
             (addr this) (mmap_len this) \<noteq> 0 \<longrightarrow>
          ret = k_munmap env
             (calls w @ (if buf_cl this \<noteq> nullptr then [ClReleaseMemObject (buf_cl this)] else []))
             (addr this) (mmap_len this)
          \<and> Close (fd this) \<notin> set (drop (length (calls w)) (calls w'))"
    using free_cases [OF assms] by (cases "buf_cl this = nullptr") auto
qed

text \<open>
  Three runs of the amended C3, each one determined by the theorem: \<^verbatim>\<open>munmap\<close>
  failing (no close), the release of the memory object failing (nothing after it), and
  every step served (all three made, 0 returned).
\<close>

theorem free_stops_at_first_failure_witness:
  "free (serving\<lparr>k_munmap := (\<lambda>h a n. - 1)\<rparr>) mapped world0
     = (- 1, mapped, world0\<lparr>calls := [Munmap 0x7F0000001000 24]\<rparr>)
   \<and> Close (fd mapped) \<notin> set [Munmap 0x7F0000001000 24]
   \<and> free (serving\<lparr>k_clReleaseMemObject := (\<lambda>h m. - 38)\<rparr>) (mapped\<lparr>buf_cl := 0x5000\<rparr>) world0
     = (- 38, mapped\<lparr>buf_cl := 0x5000\<rparr>, world0\<lparr>calls := [ClReleaseMemObject 0x5000]\<rparr>)
   \<and> free serving (mapped\<lparr>buf_cl := 0x5000\<rparr>) world0
     = (0, mapped\<lparr>buf_cl := 0x5000\<rparr>,
        world0\<lparr>calls := [ClReleaseMemObject 0x5000, Munmap 0x7F0000001000 24, Close 7]\<rparr>)"
proof -
  let ?reg = "mapped\<lparr>buf_cl := 0x5000\<rparr>"
  let ?norel = "serving\<lparr>k_clReleaseMemObject := (\<lambda>h m. - 38)\<rparr>"
  let ?nounmap = "serving\<lparr>k_munmap := (\<lambda>h a n. - 1)\<rparr>"
  obtain r1 b1 w1 where f1: "free ?nounmap mapped world0 = (r1, b1, w1)" by (metis prod.collapse)
  obtain r2 b2 w2 where f2: "free ?norel ?reg world0 = (r2, b2, w2)" by (metis prod.collapse)
  obtain r3 b3 w3 where f3: "free serving ?reg world0 = (r3, b3, w3)" by (metis prod.collapse)
  have same: "b1 = mapped" "b2 = ?reg" "b3 = ?reg"
    "mem w1 = mem world0" "mem w2 = mem world0" "mem w3 = mem world0"
    "fh w1 = fh world0" "fh w2 = fh world0" "fh w3 = fh world0"
    using free_cases [OF f1] free_cases [OF f2] free_cases [OF f3] by simp_all
  have st: "teardown_steps mapped = [Munmap 0x7F0000001000 24, Close 7]"
    "teardown_steps ?reg = [ClReleaseMemObject 0x5000, Munmap 0x7F0000001000 24, Close 7]"
    by (simp_all add: teardown_steps_def mapped_def nullptr_def)
  have small: "\<And>k::nat. 1 \<le> k \<Longrightarrow> k \<le> 3 \<Longrightarrow> k = 1 \<or> k = 2 \<or> k = 3" by auto
  have two: "\<And>i::nat. i < 2 \<longleftrightarrow> i = 0 \<or> i = 1" by auto
  from free_stops_at_first_failure [OF f1, THEN conjunct1] obtain k1 where
    k1: "1 \<le> k1" "k1 \<le> 2" "calls w1 = calls world0 @ take k1 (teardown_steps mapped)"
      "\<forall>i<k1 - 1. answer ?nounmap (calls world0 @ take i (teardown_steps mapped))
           (teardown_steps mapped ! i) = 0"
      "r1 = answer ?nounmap (calls world0 @ take (k1 - 1) (teardown_steps mapped))
           (teardown_steps mapped ! (k1 - 1))"
    by (auto simp add: st)
  have "k1 \<noteq> 2"
  proof
    assume "k1 = 2"
    with k1(4) have "answer ?nounmap (calls world0 @ take 0 (teardown_steps mapped))
           (teardown_steps mapped ! 0) = 0" by simp
    then show False by (simp add: st serving_def)
  qed
  with k1(1,2) have k1v: "k1 = 1" by simp
  from k1(3,5) have c1: "r1 = - 1" "calls w1 = [Munmap 0x7F0000001000 24]"
    by (simp_all add: k1v st serving_def world0_def)
  from free_stops_at_first_failure [OF f2, THEN conjunct1] obtain k2 where
    k2: "1 \<le> k2" "k2 \<le> 3" "calls w2 = calls world0 @ take k2 (teardown_steps ?reg)"
      "\<forall>i<k2 - 1. answer ?norel (calls world0 @ take i (teardown_steps ?reg))
           (teardown_steps ?reg ! i) = 0"
      "r2 = answer ?norel (calls world0 @ take (k2 - 1) (teardown_steps ?reg))
           (teardown_steps ?reg ! (k2 - 1))"
    by (auto simp add: st)
  have "k2 = 1"
  proof (rule ccontr)
    assume "k2 \<noteq> 1"
    with k2(1) have "0 < k2 - 1" by simp
    with k2(4) have "answer ?norel (calls world0 @ take 0 (teardown_steps ?reg))
           (teardown_steps ?reg ! 0) = 0" by blast
    then show False by (simp add: st serving_def)
  qed
  with k2(3,5) have c2: "r2 = - 38" "calls w2 = [ClReleaseMemObject 0x5000]"
    by (simp_all add: st serving_def world0_def)
  from free_stops_at_first_failure [OF f3, THEN conjunct1] obtain k3 where
    k3: "1 \<le> k3" "k3 \<le> 3" "calls w3 = calls world0 @ take k3 (teardown_steps ?reg)"
      "r3 = answer serving (calls world0 @ take (k3 - 1) (teardown_steps ?reg))
           (teardown_steps ?reg ! (k3 - 1))"
      "k3 < 3 \<longrightarrow> r3 \<noteq> 0"
    by (auto simp add: st)
  from small [OF k3(1,2)] k3(4) have r3: "r3 = 0"
    by (auto simp add: st serving_def)
  with k3(2,5) have "k3 = 3" by simp
  with k3(3) have c3: "calls w3 = [ClReleaseMemObject 0x5000, Munmap 0x7F0000001000 24, Close 7]"
    by (simp add: st world0_def)
  have w: "w1 = world0\<lparr>calls := [Munmap 0x7F0000001000 24]\<rparr>"
    "w2 = world0\<lparr>calls := [ClReleaseMemObject 0x5000]\<rparr>"
    "w3 = world0\<lparr>calls := [ClReleaseMemObject 0x5000, Munmap 0x7F0000001000 24, Close 7]\<rparr>"
    using same c1 c2 c3 by (simp_all add: world0_def)
  from f1 f2 f3 same c1 c2 r3 w show ?thesis by simp
qed

text \<open>
  C4, as stated, fails. On the kernel that tracks descriptor 7: a buffer is allocated,
  registered with OpenCL and released, and the release returns 0. The object comes out
  of \<open>free\<close> as it went in, with its address, its memory object and its descriptor
  still set. A second buffer is then allocated and receives the descriptor number 7
  again; a \<open>sync\<close> on the released object is not rejected: it returns 0.
\<close>

theorem free_leaves_instance_usable_counterexample:
  "\<exists>w1 w2 w3 w4 w5 A.
      allocate tracking fresh 16 world0 = Inr (mapped, w1)
    \<and> init_cl tracking mapped 0 0 w1 = Inr (A, w2)
    \<and> free tracking A w2 = (0, A, w3)
    \<and> addr A \<noteq> nullptr \<and> buf_cl A \<noteq> nullptr \<and> 0 \<le> fd A
    \<and> allocate tracking fresh 16 w3 = Inr (mapped, w4)
    \<and> sync tracking A VISIONBUF_SYNC_TO_DEVICE w4 = Inr (0, A, w5)"
proof -
  let ?c1 = "[Open_dev_ion, Ioctl_ION_IOC_ALLOC 3 (ion_alloc_init 16), Mmap 0 24 3 1 7 0]"
  let ?w1 = "\<lparr>calls = ?c1, mem = memset (\<lambda>a. 0xAA) 0x7F0000001000 0 24, fh = Some 3\<rparr>"
  let ?A = "mapped\<lparr>buf_cl := 0x5000\<rparr>"
  let ?ion_cl = "\<lparr>allocation_type = CL_MEM_ION_HOST_PTR_QCOM,
                  host_cache_policy = CL_MEM_HOST_UNCACHED_QCOM,
                  ion_filedesc = 7, ion_hostptr = 0x7F0000001000\<rparr>"
  let ?c2 = "?c1 @ [ClCreateBuffer 0 (CL_MEM_USE_HOST_PTR OR CL_MEM_EXT_HOST_PTR_QCOM) 16 ?ion_cl]"
  let ?w2 = "?w1\<lparr>calls := ?c2\<rparr>"
  let ?c3 = "?c2 @ [ClReleaseMemObject 0x5000, Munmap 0x7F0000001000 24, Close 7]"
  let ?w3 = "?w1\<lparr>calls := ?c3\<rparr>"
  have s1: "allocate tracking fresh 16 world0 = Inr (mapped, ?w1)"
    by (simp add: run_defs tracking_def handle_open_def fresh_def world0_def mapped_def)
  have s2: "init_cl tracking mapped 0 0 ?w1 = Inr (?A, ?w2)"
    by (simp add: init_cl_def Let_def issue_def tracking_def mapped_def DEVICE_PAGE_SIZE_CL_def)
  have s3: "free tracking ?A ?w2 = (0, ?A, ?w3)"
    by (simp add: free_def Let_def issue_def tracking_def handle_open_def mapped_def nullptr_def)
  have s4: "\<exists>w4. allocate tracking fresh 16 ?w3 = Inr (mapped, w4)
      \<and> calls w4 = ?c3 @ [Ioctl_ION_IOC_ALLOC 3 (ion_alloc_init 16), Mmap 0 24 3 1 7 0]"
    by (simp add: run_defs tracking_def handle_open_def fresh_def mapped_def)
  then obtain w4 where s4': "allocate tracking fresh 16 ?w3 = Inr (mapped, w4)"
    and c4: "calls w4 = ?c3 @ [Ioctl_ION_IOC_ALLOC 3 (ion_alloc_init 16), Mmap 0 24 3 1 7 0]"
    by blast
  have s5: "sync tracking ?A VISIONBUF_SYNC_TO_DEVICE w4
      = Inr (0, ?A, issue (Ioctl_DMA_BUF_IOCTL_SYNC 7 7) w4)"
    by (simp add: sync_def sync_flags_def HANDLE_EINTR.simps ioctl_dma_buf_sync_def c4
        tracking_def handle_open_def mapped_def VISIONBUF_SYNC_FROM_DEVICE_def
        VISIONBUF_SYNC_TO_DEVICE_def DMA_BUF_SYNC_END_def DMA_BUF_SYNC_RW_def)
  have s6: "addr ?A \<noteq> nullptr \<and> buf_cl ?A \<noteq> nullptr \<and> 0 \<le> fd ?A"
    by (simp add: mapped_def nullptr_def)
  from s1 s2 s3 s4' s5 s6 show ?thesis by blast
qed

text \<open>
  C4, as the code has it. When \<open>free\<close> returns 0 it has, in that one call and in this
  order, released the OpenCL memory object (when \<open>buf_cl\<close> was not null), unmapped
  \<open>mmap_len\<close> bytes at \<open>addr\<close> and closed \<open>fd\<close>, and each of these answered 0. It assigns
  no field: the object that comes back equals the one that went in, so \<open>addr\<close>, \<open>buf_cl\<close>
  and \<open>fd\<close> keep their values, and a later operation on the object is whatever that
  operation does on those values. Memory is not written.
\<close>

theorem free_success:
  assumes "free env this w = (0, this', w')"
  shows "this' = this \<and> mem w' = mem w
    \<and> calls w' = calls w
         @ (if buf_cl this \<noteq> nullptr then [ClReleaseMemObject (buf_cl this)] else [])
         @ [Munmap (addr this) (mmap_len this), Close (fd this)]
    \<and> (buf_cl this \<noteq> nullptr \<longrightarrow> k_clReleaseMemObject env (calls w) (buf_cl this) = 0)
    \<and> k_munmap env
         (calls w @ (if buf_cl this \<noteq> nullptr then [ClReleaseMemObject (buf_cl this)] else []))
         (addr this) (mmap_len this) = 0
    \<and> k_close env
         (calls w @ (if buf_cl this \<noteq> nullptr then [ClReleaseMemObject (buf_cl this)] else [])
            @ [Munmap (addr this) (mmap_len this)])
         (fd this) = 0"
  using free_cases [OF assms] by auto

text \<open>A run of the amended C4: a registered object, every service answering 0.\<close>

theorem free_success_witness:
  "free serving (mapped\<lparr>buf_cl := 0x5000\<rparr>) world0
     = (0, mapped\<lparr>buf_cl := 0x5000\<rparr>,
        world0\<lparr>calls := [ClReleaseMemObject 0x5000, Munmap 0x7F0000001000 24, Close 7]\<rparr>)
   \<and> buf_cl (mapped\<lparr>buf_cl := 0x5000\<rparr>) \<noteq> nullptr
   \<and> k_clReleaseMemObject serving [] 0x5000 = 0
   \<and> k_munmap serving [ClReleaseMemObject 0x5000] 0x7F0000001000 24 = 0
   \<and> k_close serving [ClReleaseMemObject 0x5000, Munmap 0x7F0000001000 24] 7 = 0"
proof -
  have r: "free serving (mapped\<lparr>buf_cl := 0x5000\<rparr>) world0
     = (0, mapped\<lparr>buf_cl := 0x5000\<rparr>,
        world0\<lparr>calls := [ClReleaseMemObject 0x5000, Munmap 0x7F0000001000 24, Close 7]\<rparr>)"
    by (simp add: free_def serving_def mapped_def world0_def nullptr_def issue_def)
  from free_success [OF r] r show ?thesis
    by (simp add: mapped_def world0_def nullptr_def)
qed

subsection \<open>Import\<close>

text \<open>
  C8. Whether \<open>import\<close> returns or faults, it stores nothing into memory (no byte
  changes, so there is no zero-fill) and puts no heap allocation request on the log.
  When it returns, the one call it made is a \<^verbatim>\<open>mmap\<close> of \<open>mmap_len\<close> bytes of the
  descriptor \<open>fd\<close>, readable and writable, shared, at an address of the kernel's choice;
  \<open>addr\<close> is the kernel's answer and \<open>frame_id\<close> is recomputed as
  \<open>addr + len + PADDING_CL\<close>.
\<close>

theorem import_maps_without_filling:
  "mem (world_after (import env this w)) = mem w
   \<and> (\<forall>dev ia. Ioctl_ION_IOC_ALLOC dev ia \<notin> set (drop (length (calls w)) (calls (world_after (import env this w)))))
   \<and> (import env this w = Inr (this', w') \<longrightarrow>
        calls w' = calls w @ [Mmap nullptr (mmap_len this) (PROT_READ OR PROT_WRITE) MAP_SHARED (fd this) 0]
        \<and> mem w' = mem w
        \<and> addr this' = k_mmap env (calls w) (mmap_len this) (fd this)
        \<and> addr this' \<noteq> MAP_FAILED
        \<and> frame_id this' = addr this' + len this' + PADDING_CL)"
  by (auto simp add: import_cases world_after_def)

text \<open>A run of C8: importing descriptor 7 with the agreed lengths 16 and 24.\<close>

theorem import_maps_without_filling_witness:
  "import serving (fresh\<lparr>len := 16, mmap_len := 24, fd := 7\<rparr>) world0
     = Inr (mapped, world0\<lparr>calls := [Mmap 0 24 3 1 7 0]\<rparr>)
   \<and> calls (world0\<lparr>calls := [Mmap 0 24 3 1 7 0]\<rparr>)
       = calls world0 @ [Mmap nullptr 24 (PROT_READ OR PROT_WRITE) MAP_SHARED 7 0]
   \<and> mem (world0\<lparr>calls := [Mmap 0 24 3 1 7 0]\<rparr>) = (\<lambda>a. 0xAA)
   \<and> addr mapped \<noteq> MAP_FAILED
   \<and> frame_id mapped = addr mapped + len mapped + PADDING_CL"
proof -
  have r: "import serving (fresh\<lparr>len := 16, mmap_len := 24, fd := 7\<rparr>) world0
     = Inr (mapped, world0\<lparr>calls := [Mmap 0 24 3 1 7 0]\<rparr>)"
    by (simp add: import_cases serving_def fresh_def mapped_def world0_def issue_def
        MAP_FAILED_def nullptr_def PROT_READ_def PROT_WRITE_def MAP_SHARED_def PADDING_CL_def)
  from import_maps_without_filling [of serving "fresh\<lparr>len := 16, mmap_len := 24, fd := 7\<rparr>" world0
      mapped "world0\<lparr>calls := [Mmap 0 24 3 1 7 0]\<rparr>"] r
  show ?thesis
    by (simp add: fresh_def world0_def mapped_def serving_def MAP_FAILED_def nullptr_def
        PROT_READ_def PROT_WRITE_def MAP_SHARED_def PADDING_CL_def world_after_def)
qed

text \<open>
  C10. \<open>import\<close> takes the object and nothing else. When it returns, the object differs
  from the one it was given in \<open>addr\<close> and \<open>frame_id\<close> only: \<open>fd\<close>, \<open>len\<close>, \<open>mmap_len\<close>
  (and \<open>buf_cl\<close>) are unchanged. They are its inputs: the mapping is requested for
  \<open>mmap_len\<close> bytes of \<open>fd\<close>, and \<open>frame_id\<close> is computed from \<open>len\<close>. The previous values
  of \<open>addr\<close> and \<open>frame_id\<close> are not read: changing them changes nothing in the outcome.
\<close>

theorem import_writes_addr_and_frame_id:
  "(import env this w = Inr (this', w') \<longrightarrow>
      this' = this\<lparr>addr := addr this', frame_id := frame_id this'\<rparr>
      \<and> fd this' = fd this \<and> len this' = len this \<and> mmap_len this' = mmap_len this
      \<and> buf_cl this' = buf_cl this
      \<and> addr this' = k_mmap env (calls w) (mmap_len this) (fd this)
      \<and> frame_id this' = addr this' + len this + PADDING_CL
      \<and> calls w' = calls w @ [Mmap nullptr (mmap_len this) (PROT_READ OR PROT_WRITE) MAP_SHARED (fd this) 0])
   \<and> import env (this\<lparr>addr := a, frame_id := f\<rparr>) w = import env this w"
  by (auto simp add: import_cases)

text \<open>A run of C10, also from an object whose \<open>addr\<close> and \<open>frame_id\<close> held other values.\<close>

theorem import_writes_addr_and_frame_id_witness:
  "import serving (fresh\<lparr>len := 16, mmap_len := 24, fd := 7\<rparr>) world0
     = Inr (mapped, world0\<lparr>calls := [Mmap 0 24 3 1 7 0]\<rparr>)
   \<and> mapped = fresh\<lparr>len := 16, mmap_len := 24, fd := 7, addr := 0x7F0000001000, frame_id := 0x7F0000001010\<rparr>
   \<and> fd mapped = 7 \<and> len mapped = 16 \<and> mmap_len mapped = 24 \<and> buf_cl mapped = buf_cl fresh
   \<and> import serving (fresh\<lparr>len := 16, mmap_len := 24, fd := 7, addr := 0x1234, frame_id := 0x5678\<rparr>) world0
     = Inr (mapped, world0\<lparr>calls := [Mmap 0 24 3 1 7 0]\<rparr>)"
proof -
  have r: "import serving (fresh\<lparr>len := 16, mmap_len := 24, fd := 7\<rparr>) world0
     = Inr (mapped, world0\<lparr>calls := [Mmap 0 24 3 1 7 0]\<rparr>)"
    by (simp add: import_cases serving_def fresh_def mapped_def world0_def issue_def
        MAP_FAILED_def nullptr_def PROT_READ_def PROT_WRITE_def MAP_SHARED_def PADDING_CL_def)
  from import_writes_addr_and_frame_id [where env = serving
      and this = "fresh\<lparr>len := 16, mmap_len := 24, fd := 7\<rparr>" and w = world0 and this' = mapped
      and w' = "world0\<lparr>calls := [Mmap 0 24 3 1 7 0]\<rparr>" and a = "0x1234" and f = "0x5678"] r
  show ?thesis
    by (simp add: fresh_def mapped_def nullptr_def)
qed

end
